theory Spec2Isabelle
  imports Main "HOL-Library.Sublist"
begin

section \<open>Python values and strings\<close>

text \<open>
  The values that travel from the GLIMS export to the template cells. The export is read
  with \<^verbatim>\<open>dtype=str\<close>, so a field is a string or, when the field is missing, an object
  that is not a string (a float NaN); a template cell holds \<^verbatim>\<open>None\<close>, a string or some
  other object (a number, a date). \<open>PObj t s\<close> stands for any object that is neither
  \<^verbatim>\<open>None\<close> nor a string, with \<^verbatim>\<open>bool(obj) = t\<close> and \<^verbatim>\<open>str(obj) = s\<close>.
\<close>

datatype pyval = PNone | PStr string | PObj bool string

text \<open>\<^verbatim>\<open>isinstance(v, str)\<close>, \<^verbatim>\<open>str(v)\<close> and the truth value of \<^verbatim>\<open>v\<close>.\<close>

fun isinstance_str :: "pyval \<Rightarrow> bool" where
  "isinstance_str (PStr s) = True"
| "isinstance_str v = False"

fun str :: "pyval \<Rightarrow> string" where
  "str PNone = ''None''"
| "str (PStr s) = s"
| "str (PObj t s) = s"

fun truthy :: "pyval \<Rightarrow> bool" where
  "truthy PNone = False"
| "truthy (PStr s) = (s \<noteq> [])"
| "truthy (PObj t s) = t"

text \<open>
  \<^verbatim>\<open>str.lower()\<close> and \<^verbatim>\<open>str.strip()\<close> on ASCII text: the identifiers of the
  configuration, of the export's header and of the template are ASCII. A character
  outside \<open>A\<close>..\<open>Z\<close> is left as it is.
\<close>

definition lower_char :: "char \<Rightarrow> char" where
  "lower_char c =
     (case map_of (zip ''ABCDEFGHIJKLMNOPQRSTUVWXYZ'' ''abcdefghijklmnopqrstuvwxyz'') c of
        Some l \<Rightarrow> l
      | None \<Rightarrow> c)"

definition lower :: "string \<Rightarrow> string" where
  "lower s = map lower_char s"

definition isspace :: "char \<Rightarrow> bool" where
  "isspace c =
     (let n = (of_char c :: nat)
      in (9 \<le> n \<and> n \<le> 13) \<or> (28 \<le> n \<and> n \<le> 32))"

definition strip :: "string \<Rightarrow> string" where
  "strip s = rev (dropWhile isspace (rev (dropWhile isspace s)))"

text \<open>\<^verbatim>\<open>s.replace(a, b)\<close> for single characters \<open>a\<close> and \<open>b\<close>.\<close>

definition replace :: "char \<Rightarrow> char \<Rightarrow> string \<Rightarrow> string" where
  "replace a b s = map (\<lambda>c. if c = a then b else c) s"

text \<open>\<^verbatim>\<open>sub in s\<close> on strings: \<open>sub\<close> occurs in \<open>s\<close> as a contiguous piece.\<close>

fun contains :: "string \<Rightarrow> string \<Rightarrow> bool" where
  "contains sub [] = (sub = [])"
| "contains sub (c # cs) = (prefix sub (c # cs) \<or> contains sub cs)"

section \<open>Constants and configuration\<close>

definition C_MODULE_SHEET_INDEX :: nat where "C_MODULE_SHEET_INDEX = 0"
definition E_MODULE_SHEET_INDEX :: nat where "E_MODULE_SHEET_INDEX = 1"

definition C_MODULE_BASE_OFFSET_8000 :: int where "C_MODULE_BASE_OFFSET_8000 = 8"
definition C_MODULE_BASE_OFFSET_PRO :: int where "C_MODULE_BASE_OFFSET_PRO = 9"
definition E_MODULE_BASE_OFFSET_8000 :: int where "E_MODULE_BASE_OFFSET_8000 = 14"
definition E_MODULE_BASE_OFFSET_PRO :: int where "E_MODULE_BASE_OFFSET_PRO = 15"
definition DEFAULT_TESTRUN_OFFSET :: int where "DEFAULT_TESTRUN_OFFSET = 40"

definition REPRO_FIRST_DATA_ROW :: int where "REPRO_FIRST_DATA_ROW = 3"
definition REPRO_HEADER_ROW :: int where "REPRO_HEADER_ROW = 2"
definition EXCEL_NAME_COLUMN :: nat where "EXCEL_NAME_COLUMN = 1"
definition EXCEL_ROW_START :: int where "EXCEL_ROW_START = 2"

text \<open>
  The tables of \<^verbatim>\<open>config_data.json\<close>. The file is not part of the sources, so the
  tables are a parameter of every function that reads them: \<open>OFFSET_MAP\<close> is a dictionary
  from testrun identifier to column offset, the other tables are lists of identifiers.
\<close>

record test_codes =
  c_module :: "string list"
  e_module :: "string list"

record tiers =
  low :: "string list"
  high :: "string list"

record config =
  OFFSET_MAP :: "string \<rightharpoonup> int"
  TEST_MNEMONICS :: test_codes
  QC_MATERIAL :: tiers
  QC_MATERIAL_PRO :: tiers
  SKIP_HIV :: "string list"

text \<open>What the program prints or logs, in the order it does.\<close>

datatype event =
    Unknown_testrun_default string int
  | Unknown_testrun_skipping_row string
  | Unknown_mnemonic string
  | Row_or_column_not_found string string
  | Sheet_does_not_exist string int
  | Column_is_None string int
  | Mnemonic_not_in_sheet string string
  | Invalid_date string
  | Sheet_not_found string

text \<open>The exceptions the modelled code raises.\<close>

datatype error =
    Unknown_analyser string string
  | Unknown_QC_material string
  | Non_Pro_deprecated
  | KeyError string
  | IndexError
  | AttributeError
  | TypeError
  | Coordinates_below_1

section \<open>Placement resolver\<close>

text \<open>
  \<^verbatim>\<open>get_testrun_column_offset(testrun, csv_row_index)\<close>: the offset and what is printed.
\<close>

definition get_testrun_column_offset ::
  "config \<Rightarrow> string \<Rightarrow> int \<Rightarrow> int \<times> event list" where
  "get_testrun_column_offset cfg testrun csv_row_index =
     (case OFFSET_MAP cfg testrun of
        Some off \<Rightarrow> (off, [])
      | None \<Rightarrow> (DEFAULT_TESTRUN_OFFSET,
                 [Unknown_testrun_default testrun DEFAULT_TESTRUN_OFFSET]))"

text \<open>
  \<^verbatim>\<open>'8000' in patient_id\<close>: the first column of the export holds a string, or an
  object that is not a string when the field is empty, and then the test raises.
\<close>

fun contains_8000 :: "pyval \<Rightarrow> error + bool" where
  "contains_8000 (PStr s) = Inr (contains ''8000'' s)"
| "contains_8000 v = Inl TypeError"

text \<open>
  \<^verbatim>\<open>get_sheet_and_column_base(mnemonic, patient_id, test_codes_map)\<close>: the pair
  \<^verbatim>\<open>(None, None)\<close> is \<open>None\<close>, and the warning of that branch is returned beside it.
  The identifier is looked at only once the mnemonic is found in a module.
\<close>

definition get_sheet_and_column_base ::
  "string \<Rightarrow> pyval \<Rightarrow> test_codes \<Rightarrow> error + ((nat \<times> int) option \<times> event list)" where
  "get_sheet_and_column_base mnemonic patient_id test_codes_map =
     (let mnemonic_lower = lower mnemonic;
          c_module_codes = map lower (c_module test_codes_map);
          e_module_codes = map lower (e_module test_codes_map)
      in if mnemonic_lower \<in> set c_module_codes then
           (case contains_8000 patient_id of
              Inl e \<Rightarrow> Inl e
            | Inr is_8000 \<Rightarrow>
                Inr (Some (C_MODULE_SHEET_INDEX,
                           if is_8000 then C_MODULE_BASE_OFFSET_8000
                           else C_MODULE_BASE_OFFSET_PRO), []))
         else if mnemonic_lower \<in> set e_module_codes then
           (case contains_8000 patient_id of
              Inl e \<Rightarrow> Inl e
            | Inr is_8000 \<Rightarrow>
                Inr (Some (E_MODULE_SHEET_INDEX,
                           if is_8000 then E_MODULE_BASE_OFFSET_8000
                           else E_MODULE_BASE_OFFSET_PRO), []))
         else Inr (None, [Unknown_mnemonic mnemonic]))"

text \<open>
  \<^verbatim>\<open>determine_repro_sheet(pro_validation, qc_material, analyser)\<close>: every
  \<^verbatim>\<open>raise ValueError\<close> is an \<open>Inl\<close>.
\<close>

definition determine_repro_sheet ::
  "config \<Rightarrow> bool \<Rightarrow> string \<Rightarrow> string \<Rightarrow> error + string" where
  "determine_repro_sheet cfg pro_validation qc_material analyser =
     (if qc_material \<in> {''VLK_Hemolyse'', ''VLK_Ict-V'', ''VLK_Lip-V''} then
        (if analyser \<in> {''VLK_PRO-4_C503'', ''VLK_PRO-3_C503''} then Inr ''REPRO controle 1''
         else if analyser \<in> {''VLK_PRO-4_C703'', ''VLK_PRO-3_C703''} then Inr ''REPRO controle 2''
         else if analyser = ''VLK_C500PRO-01'' then Inr ''REPRO controle 3''
         else Inl (Unknown_analyser analyser qc_material))
      else if pro_validation then
        (if qc_material \<in> set (low (QC_MATERIAL_PRO cfg)) \<or>
            qc_material \<in> set (low (QC_MATERIAL cfg)) then Inr ''REPRO controle 1''
         else if qc_material \<in> set (high (QC_MATERIAL_PRO cfg)) \<or>
                 qc_material \<in> set (high (QC_MATERIAL cfg)) then Inr ''REPRO controle 2''
         else if list_ex (\<lambda>marker. contains marker qc_material) [''VLK_Bil'', ''VLK_Vrij'']
           then Inr ''REPRO controle 3''
         else Inl (Unknown_QC_material qc_material))
      else Inl Non_Pro_deprecated)"

text \<open>\<^verbatim>\<open>apply_hiv_sheet_override(test_name, qc_material, default_sheet)\<close>.\<close>

definition hiv_mappings :: "((string \<times> string) \<times> string) list" where
  "hiv_mappings =
     [((''m_ahiv_eclia_ser'', ''VLK_PC_HIV_3''), ''REPRO controle 1''),
      ((''m_hivag_eclia_ser'', ''VLK_PC_HIV_3''), ''REPRO controle 2''),
      ((''m_ahiv_eclia_ser'', ''VLK_PC_HIV_5''), ''REPRO controle 2''),
      ((''m_hivag_eclia_ser'', ''VLK_PC_HIV_5''), ''REPRO controle 1'')]"

definition apply_hiv_sheet_override :: "string \<Rightarrow> string \<Rightarrow> string \<Rightarrow> string" where
  "apply_hiv_sheet_override test_name qc_material default_sheet =
     (case map_of hiv_mappings (test_name, qc_material) of
        Some sheet \<Rightarrow> sheet
      | None \<Rightarrow> default_sheet)"

section \<open>The workbook and the spreadsheet writer\<close>

text \<open>
  A worksheet of the loaded template: its title, the value of every cell by (row, column),
  which cells carry the highlight fill, and the sheet's dimensions. The two workflows read
  \<open>max_row\<close> (row lookup) and \<open>max_column\<close> (header lookup) respectively, and neither
  writes beyond the dimension it reads, so the dimensions are those of the template.
  A workbook is the list of its worksheets, in order; titles are unique.
\<close>

record worksheet =
  title :: string
  cells :: "int \<times> int \<Rightarrow> pyval"
  fills :: "int \<times> int \<Rightarrow> bool"
  max_row :: int
  max_column :: int

type_synonym workbook = "worksheet list"

record world =
  book :: workbook
  console :: "event list"

definition sheetnames :: "workbook \<Rightarrow> string list" where
  "sheetnames wb = map title wb"

text \<open>\<^verbatim>\<open>wb[sheet_name]\<close>: \<open>None\<close> is the \<^verbatim>\<open>KeyError\<close>.\<close>

definition get_sheet :: "workbook \<Rightarrow> string \<Rightarrow> worksheet option" where
  "get_sheet wb sheet_name = find (\<lambda>ws. title ws = sheet_name) wb"

definition put_sheet :: "workbook \<Rightarrow> worksheet \<Rightarrow> workbook" where
  "put_sheet wb ws = map (\<lambda>old. if title old = title ws then ws else old) wb"

text \<open>\<^verbatim>\<open>cell.value not in (None, '')\<close> is \<open>\<not> is_empty\<close>.\<close>

definition is_empty :: "pyval \<Rightarrow> bool" where
  "is_empty v = (v = PNone \<or> v = PStr [])"

text \<open>
  \<^verbatim>\<open>ExcelCsvHandler.update_excel_cell(wb, sheet_name, row, col, value)\<close>. A missing
  sheet is logged; \<^verbatim>\<open>sheet.cell\<close> raises for a coordinate below 1; the value is stored
  as it is given.
\<close>

definition update_excel_cell ::
  "world \<Rightarrow> string \<Rightarrow> int \<Rightarrow> int \<Rightarrow> pyval \<Rightarrow> (error \<times> world) + world" where
  "update_excel_cell w sheet_name row col val =
     (case get_sheet (book w) sheet_name of
        None \<Rightarrow> Inr (w\<lparr>console := console w @ [Sheet_not_found sheet_name]\<rparr>)
      | Some sheet \<Rightarrow>
          if row < 1 \<or> col < 1 then Inl (Coordinates_below_1, w)
          else if \<not> is_empty (cells sheet (row, col)) then Inr w
          else Inr (w\<lparr>book := put_sheet (book w)
                 (sheet\<lparr>cells := (cells sheet)((row, col) := val),
                        fills := (fills sheet)((row, col) := True)\<rparr>)\<rparr>))"

text \<open>The value of a cell of the workbook, \<open>None\<close> when the sheet is missing.\<close>

definition cell_value :: "world \<Rightarrow> string \<Rightarrow> int \<Rightarrow> int \<Rightarrow> pyval option" where
  "cell_value w sheet_name row col =
     map_option (\<lambda>ws. cells ws (row, col)) (get_sheet (book w) sheet_name)"

text \<open>
  The conversion both workflows apply before writing:
  \<^verbatim>\<open>str(v).replace('.', ',') if isinstance(v, str) else v\<close>.
\<close>

definition value_to_write :: "pyval \<Rightarrow> pyval" where
  "value_to_write v =
     (if isinstance_str v then PStr (replace (CHR ''.'') (CHR '','') (str v)) else v)"

section \<open>Lookups in the template\<close>

text \<open>
  \<^verbatim>\<open>find_test_row_in_worksheet(worksheet, mnemonic)\<close>: rows \<open>EXCEL_ROW_START\<close> to
  \<open>max_row\<close>, the name in column B; a row of a sheet with a single column has no second
  cell. \<open>find_test_row_from ws m r n\<close> scans \<open>n\<close> rows from row \<open>r\<close>.
\<close>

fun find_test_row_from :: "worksheet \<Rightarrow> string \<Rightarrow> int \<Rightarrow> nat \<Rightarrow> error + int option" where
  "find_test_row_from ws mnemonic r 0 = Inr None"
| "find_test_row_from ws mnemonic r (Suc n) =
     (if max_column ws < 2 then Inl IndexError
      else let v = cells ws (r, int EXCEL_NAME_COLUMN + 1)
           in if truthy v \<and> lower (strip (str v)) = lower mnemonic then Inr (Some r)
              else find_test_row_from ws mnemonic (r + 1) n)"

definition find_test_row_in_worksheet :: "worksheet \<Rightarrow> string \<Rightarrow> error + int option" where
  "find_test_row_in_worksheet ws mnemonic =
     find_test_row_from ws mnemonic EXCEL_ROW_START (nat (max_row ws + 1 - EXCEL_ROW_START))"

text \<open>
  \<^verbatim>\<open>get_repro_test_column(worksheet, mnemonic)\<close>: columns 1 to \<open>max_column\<close> of the
  header row; \<^verbatim>\<open>cell_value.lower()\<close> raises on a value that is not a string.
\<close>

fun get_repro_test_column_from ::
  "worksheet \<Rightarrow> string \<Rightarrow> int \<Rightarrow> nat \<Rightarrow> error + int option" where
  "get_repro_test_column_from ws mnemonic c 0 = Inr None"
| "get_repro_test_column_from ws mnemonic c (Suc n) =
     (case cells ws (REPRO_HEADER_ROW, c) of
        PNone \<Rightarrow> get_repro_test_column_from ws mnemonic (c + 1) n
      | PStr s \<Rightarrow>
          if lower s = lower mnemonic then Inr (Some c)
          else get_repro_test_column_from ws mnemonic (c + 1) n
      | PObj t s \<Rightarrow> Inl AttributeError)"

definition get_repro_test_column :: "worksheet \<Rightarrow> string \<Rightarrow> error + int option" where
  "get_repro_test_column ws mnemonic =
     get_repro_test_column_from ws mnemonic 1 (nat (max_column ws))"

section \<open>Reproducibility workflow\<close>

text \<open>
  A measurement is the list \<^verbatim>\<open>[datetime, value, qc_material, analyser]\<close>; the parsed
  date is a point on a linear time axis. A row of the reproducibility export: the date
  field, the QC material and the analyser (identifiers, filled in every row of the
  export), and one value per test column.
\<close>

type_synonym measurement = "int \<times> pyval \<times> string \<times> string"

record repro_row =
  row_date :: pyval
  row_qc_material :: string
  row_analyser :: string
  row_values :: "pyval list"

text \<open>
  The dictionary \<^verbatim>\<open>measurements\<close>, in insertion order: one key per distinct mnemonic,
  at the place of its first occurrence.
\<close>

type_synonym measurements = "(string \<times> measurement list) list"

definition empty_measurements :: "string list \<Rightarrow> measurements" where
  "empty_measurements test_mnemonics = map (\<lambda>k. (k, [])) (rev (remdups (rev test_mnemonics)))"

definition append_measurement :: "measurements \<Rightarrow> string \<Rightarrow> measurement \<Rightarrow> measurements" where
  "append_measurement d key m = map (\<lambda>(k, ms). if k = key then (k, ms @ [m]) else (k, ms)) d"

text \<open>\<^verbatim>\<open>value != '-' and value is not None\<close> is \<open>\<not> placeholder\<close>.\<close>

definition placeholder :: "pyval \<Rightarrow> bool" where
  "placeholder v = (v = PStr ''-'' \<or> v = PNone)"

text \<open>\<^verbatim>\<open>f"PRO-{analyser_number}"\<close>, for the one-digit numbers the prompt returns.\<close>

definition pro_token :: "nat \<Rightarrow> string" where
  "pro_token analyser_number = ''PRO-'' @ [''0123456789'' ! analyser_number]"

text \<open>
  \<^verbatim>\<open>build_repro_measurements\<close>. The date parser of \<^verbatim>\<open>dateutil\<close> is a parameter
  (\<open>None\<close> is its \<^verbatim>\<open>ParserError\<close>), and so is the answer of the analyser prompt.
  \<open>build_row\<close> is the body of the loop over the rows; each row has one value per test column.
\<close>

definition build_row ::
  "config \<Rightarrow> (string \<Rightarrow> int option) \<Rightarrow> bool \<Rightarrow> nat option \<Rightarrow> string list \<Rightarrow>
   measurements \<times> event list \<Rightarrow> repro_row \<Rightarrow> measurements \<times> event list" where
  "build_row cfg parse is_pro_validation analyser_number test_mnemonics acc row =
     (case parse (str (row_date row)) of
        None \<Rightarrow>
          (fst acc,
           snd acc @ (if row_date row \<noteq> PNone then [Invalid_date (str (row_date row))] else []))
      | Some measurement_datetime \<Rightarrow>
          if row_qc_material row \<in> set (SKIP_HIV cfg) then acc
          else if is_pro_validation \<and>
                  (case analyser_number of
                     None \<Rightarrow> False
                   | Some n \<Rightarrow> \<not> contains (pro_token n) (row_analyser row)) then acc
          else
            (foldl (\<lambda>d (mnemonic, v).
                      if placeholder v then d
                      else append_measurement d mnemonic
                             (measurement_datetime, v, row_qc_material row, row_analyser row))
                   (fst acc) (zip test_mnemonics (row_values row)),
             snd acc))"

definition build_repro_measurements ::
  "config \<Rightarrow> (string \<Rightarrow> int option) \<Rightarrow> nat option \<Rightarrow> repro_row list \<Rightarrow> string list \<Rightarrow> bool \<Rightarrow>
   measurements \<times> event list" where
  "build_repro_measurements cfg parse prompt_answer glims_rows test_mnemonics is_pro_validation =
     (let analyser_number = (if is_pro_validation then prompt_answer else None)
      in foldl (build_row cfg parse is_pro_validation analyser_number test_mnemonics)
               (empty_measurements test_mnemonics, []) glims_rows)"

text \<open>\<^verbatim>\<open>update_repro_row(workbook, sheet_name, row_index, column_index, measurement_data)\<close>.\<close>

definition update_repro_row ::
  "world \<Rightarrow> string \<Rightarrow> int \<Rightarrow> int option \<Rightarrow> measurement \<Rightarrow> (error \<times> world) + world" where
  "update_repro_row w sheet_name row_index column_index measurement_data =
     (if sheet_name \<notin> set (sheetnames (book w)) then
        Inr (w\<lparr>console := console w @ [Sheet_does_not_exist sheet_name row_index]\<rparr>)
      else case column_index of
        None \<Rightarrow> Inr (w\<lparr>console := console w @ [Column_is_None sheet_name row_index]\<rparr>)
      | Some c \<Rightarrow>
          update_excel_cell w sheet_name row_index c
            (value_to_write (fst (snd measurement_data))))"

text \<open>
  The state of the loop over one test's measurements in \<^verbatim>\<open>write_repro_results\<close>: the
  workbook and console, the two row counters, and a history of the calls of
  \<^verbatim>\<open>update_repro_row\<close> the loop has made. The history is not a variable of the source;
  it records, for each call, the test, the sheet, the row and column passed, the
  measurement, and whether the target cell was empty (so that the call stored its value).
\<close>

record placement =
  p_test :: string
  p_sheet :: string
  p_row :: int
  p_column :: int
  p_measurement :: measurement
  p_stored :: bool

record emit_state =
  es_world :: world
  row_control_1 :: int
  row_control_2 :: int
  history :: "placement list"

definition cell_free :: "world \<Rightarrow> string \<Rightarrow> int \<Rightarrow> int \<Rightarrow> bool" where
  "cell_free w sheet_name row col =
     (case get_sheet (book w) sheet_name of
        None \<Rightarrow> False
      | Some ws \<Rightarrow> is_empty (cells ws (row, col)))"

definition warn :: "emit_state \<Rightarrow> event \<Rightarrow> emit_state" where
  "warn st e = st\<lparr>es_world := (es_world st)\<lparr>console := console (es_world st) @ [e]\<rparr>\<rparr>"

text \<open>
  The body of the loop over the sorted measurements. A raised exception leaves the loop
  with the state reached so far.
\<close>

definition emit_measurement ::
  "config \<Rightarrow> bool \<Rightarrow> string \<Rightarrow> emit_state \<Rightarrow> measurement \<Rightarrow> (error \<times> emit_state) + emit_state" where
  "emit_measurement cfg is_pro_validation test_name st measurement =
     (case measurement of (datetime_val, val, qc_material, analyser) \<Rightarrow>
      (case determine_repro_sheet cfg is_pro_validation qc_material analyser of
         Inl e \<Rightarrow> Inl (e, st)
       | Inr default_sheet \<Rightarrow>
           let sheet_name = apply_hiv_sheet_override test_name qc_material default_sheet
           in (case get_sheet (book (es_world st)) sheet_name of
                 None \<Rightarrow> Inl (KeyError sheet_name, st)
               | Some ws \<Rightarrow>
                   (case get_repro_test_column ws test_name of
                      Inl e \<Rightarrow> Inl (e, st)
                    | Inr None \<Rightarrow> Inr (warn st (Mnemonic_not_in_sheet test_name sheet_name))
                    | Inr (Some column_index) \<Rightarrow>
                        if sheet_name = ''REPRO controle 1'' then
                          (case update_repro_row (es_world st) sheet_name (row_control_1 st)
                                  (Some column_index) measurement of
                             Inl (e, w) \<Rightarrow> Inl (e, st\<lparr>es_world := w\<rparr>)
                           | Inr w \<Rightarrow>
                               Inr (st\<lparr>es_world := w,
                                       row_control_1 := row_control_1 st + 1,
                                       history := history st @
                                         [\<lparr>p_test = test_name, p_sheet = sheet_name,
                                           p_row = row_control_1 st, p_column = column_index,
                                           p_measurement = measurement,
                                           p_stored = cell_free (es_world st) sheet_name
                                                        (row_control_1 st) column_index\<rparr>]\<rparr>))
                        else if sheet_name = ''REPRO controle 2'' then
                          (case update_repro_row (es_world st) sheet_name (row_control_2 st)
                                  (Some column_index) measurement of
                             Inl (e, w) \<Rightarrow> Inl (e, st\<lparr>es_world := w\<rparr>)
                           | Inr w \<Rightarrow>
                               Inr (st\<lparr>es_world := w,
                                       row_control_2 := row_control_2 st + 1,
                                       history := history st @
                                         [\<lparr>p_test = test_name, p_sheet = sheet_name,
                                           p_row = row_control_2 st, p_column = column_index,
                                           p_measurement = measurement,
                                           p_stored = cell_free (es_world st) sheet_name
                                                        (row_control_2 st) column_index\<rparr>]\<rparr>))
                        else Inr st))))"

fun emit_loop ::
  "config \<Rightarrow> bool \<Rightarrow> string \<Rightarrow> emit_state \<Rightarrow> measurement list \<Rightarrow>
   (error \<times> emit_state) + emit_state" where
  "emit_loop cfg is_pro_validation test_name st [] = Inr st"
| "emit_loop cfg is_pro_validation test_name st (m # ms) =
     (case emit_measurement cfg is_pro_validation test_name st m of
        Inl e \<Rightarrow> Inl e
      | Inr st' \<Rightarrow> emit_loop cfg is_pro_validation test_name st' ms)"

text \<open>
  \<^verbatim>\<open>write_repro_results\<close>: for each test of the dictionary, in its order, the
  measurements are sorted by their date (\<^verbatim>\<open>list.sort\<close> is stable, as \<open>sort_key\<close> is),
  both counters start at \<open>REPRO_FIRST_DATA_ROW\<close>, and the loop runs.
\<close>

definition write_test ::
  "config \<Rightarrow> bool \<Rightarrow> emit_state \<Rightarrow> string \<times> measurement list \<Rightarrow>
   (error \<times> emit_state) + emit_state" where
  "write_test cfg is_pro_validation st entry =
     emit_loop cfg is_pro_validation (fst entry)
       (st\<lparr>row_control_1 := REPRO_FIRST_DATA_ROW, row_control_2 := REPRO_FIRST_DATA_ROW\<rparr>)
       (sort_key fst (snd entry))"

fun write_repro_results ::
  "config \<Rightarrow> bool \<Rightarrow> emit_state \<Rightarrow> measurements \<Rightarrow> (error \<times> emit_state) + emit_state" where
  "write_repro_results cfg is_pro_validation st [] = Inr st"
| "write_repro_results cfg is_pro_validation st (entry # rest) =
     (case write_test cfg is_pro_validation st entry of
        Inl e \<Rightarrow> Inl e
      | Inr st' \<Rightarrow> write_repro_results cfg is_pro_validation st' rest)"

text \<open>The state a run ends in, whether it returned or raised.\<close>

fun final :: "(error \<times> 'a) + 'a \<Rightarrow> 'a" where
  "final (Inl (e, st)) = st"
| "final (Inr st) = st"

definition start :: "world \<Rightarrow> emit_state" where
  "start w = \<lparr>es_world = w, row_control_1 = REPRO_FIRST_DATA_ROW,
              row_control_2 = REPRO_FIRST_DATA_ROW, history = []\<rparr>"

section \<open>Non-reproducibility workflow\<close>

text \<open>
  The export as a frame: the lowercased header and the rows, each a tuple of values.
  \<open>item\<close> is indexing a list or tuple, \<open>index_of\<close> is \<^verbatim>\<open>list.index\<close> for an element
  of the list.
\<close>

record dataframe =
  df_columns :: "string list"
  df_rows :: "pyval list list"

definition item :: "'a list \<Rightarrow> nat \<Rightarrow> error + 'a" where
  "item xs i = (if i < length xs then Inr (xs ! i) else Inl IndexError)"

fun index_of :: "'a list \<Rightarrow> 'a \<Rightarrow> nat" where
  "index_of [] x = 0"
| "index_of (y # ys) x = (if y = x then 0 else Suc (index_of ys x))"

text \<open>
  The body of the loop over the test mnemonics in \<^verbatim>\<open>process_skml\<close>, for one row. The
  debug prints and the optional debug file are left out.
\<close>

definition process_field ::
  "config \<Rightarrow> string list \<Rightarrow> nat \<Rightarrow> pyval list \<Rightarrow> pyval \<Rightarrow> string \<Rightarrow> world \<Rightarrow> string \<Rightarrow>
   (error \<times> world) + world" where
  "process_field cfg test_mnemonics mnemonic_start_col row patient_id testrun_id w test_mnemonic =
     (let mnemonic_column_index = index_of test_mnemonics test_mnemonic + mnemonic_start_col
      in case item row mnemonic_column_index of
           Inl e \<Rightarrow> Inl (e, w)
         | Inr test_result_value \<Rightarrow>
             if test_result_value = PStr ''-'' \<or> test_result_value = PNone then Inr w
             else
               (case get_sheet_and_column_base test_mnemonic patient_id (TEST_MNEMONICS cfg) of
                  Inl e \<Rightarrow> Inl (e, w)
                | Inr (None, warnings) \<Rightarrow> Inr (w\<lparr>console := console w @ warnings\<rparr>)
                | Inr (Some (worksheet_index, base_column_index), warnings) \<Rightarrow>
                    (case item (book w) worksheet_index of
                       Inl e \<Rightarrow> Inl (e, w)
                     | Inr worksheet \<Rightarrow>
                         (case find_test_row_in_worksheet worksheet test_mnemonic of
                            Inl e \<Rightarrow> Inl (e, w)
                          | Inr excel_row_index \<Rightarrow>
                              (case OFFSET_MAP cfg testrun_id of
                                 None \<Rightarrow> Inl (KeyError testrun_id, w)
                               | Some off \<Rightarrow>
                                   let result_column_index = base_column_index + off
                                   in (case excel_row_index of
                                         None \<Rightarrow>
                                           Inr (w\<lparr>console := console w @
                                                  [Row_or_column_not_found test_mnemonic
                                                     (str patient_id)]\<rparr>)
                                       | Some r \<Rightarrow>
                                           update_excel_cell w (title worksheet) r
                                             result_column_index
                                             (value_to_write test_result_value)))))))"

fun process_fields ::
  "config \<Rightarrow> string list \<Rightarrow> nat \<Rightarrow> pyval list \<Rightarrow> pyval \<Rightarrow> string \<Rightarrow> world \<Rightarrow> string list \<Rightarrow>
   (error \<times> world) + world" where
  "process_fields cfg test_mnemonics mnemonic_start_col row patient_id testrun_id w [] = Inr w"
| "process_fields cfg test_mnemonics mnemonic_start_col row patient_id testrun_id w (m # ms) =
     (case process_field cfg test_mnemonics mnemonic_start_col row patient_id testrun_id w m of
        Inl e \<Rightarrow> Inl e
      | Inr w' \<Rightarrow>
          process_fields cfg test_mnemonics mnemonic_start_col row patient_id testrun_id w' ms)"

text \<open>The body of the loop over the rows.\<close>

definition process_row ::
  "config \<Rightarrow> string list \<Rightarrow> nat \<Rightarrow> world \<Rightarrow> pyval list \<Rightarrow> (error \<times> world) + world" where
  "process_row cfg test_mnemonics mnemonic_start_col w row =
     (case item row 0 of
        Inl e \<Rightarrow> Inl (e, w)
      | Inr patient_id \<Rightarrow>
          (case item row 1 of
             Inl e \<Rightarrow> Inl (e, w)
           | Inr testrun \<Rightarrow>
               let testrun_id = lower (str testrun)
               in if testrun_id \<notin> dom (OFFSET_MAP cfg) then
                    Inr (w\<lparr>console := console w @ [Unknown_testrun_skipping_row testrun_id]\<rparr>)
                  else process_fields cfg test_mnemonics mnemonic_start_col row patient_id
                         testrun_id w test_mnemonics))"

fun process_rows ::
  "config \<Rightarrow> string list \<Rightarrow> nat \<Rightarrow> world \<Rightarrow> pyval list list \<Rightarrow> (error \<times> world) + world" where
  "process_rows cfg test_mnemonics mnemonic_start_col w [] = Inr w"
| "process_rows cfg test_mnemonics mnemonic_start_col w (row # rest) =
     (case process_row cfg test_mnemonics mnemonic_start_col w row of
        Inl e \<Rightarrow> Inl e
      | Inr w' \<Rightarrow> process_rows cfg test_mnemonics mnemonic_start_col w' rest)"

definition process_skml :: "config \<Rightarrow> dataframe \<Rightarrow> world \<Rightarrow> (error \<times> world) + world" where
  "process_skml cfg glims_df w =
     (case item (df_columns glims_df) 2 of
        Inl e \<Rightarrow> Inl (e, w)
      | Inr third \<Rightarrow>
          let has_order_column = (\<not> prefix ''k_'' (lower third));
              mnemonic_start_col = (if has_order_column then 3 else 2);
              test_mnemonics = map lower (drop mnemonic_start_col (df_columns glims_df))
          in process_rows cfg test_mnemonics mnemonic_start_col w (df_rows glims_df))"

section \<open>What the history says\<close>

text \<open>
  The calls a history holds for one sheet have strictly ascending rows; the measurements
  of a list of calls, in the order of the calls.
\<close>

definition rows_ascending :: "string \<Rightarrow> placement list \<Rightarrow> bool" where
  "rows_ascending sheet_name h = sorted_wrt (<) (map p_row (filter (\<lambda>p. p_sheet p = sheet_name) h))"



section \<open>Example inputs\<close>

text \<open>
  A reproducibility template: three control sheets whose header row names the test in
  column 1, all data rows empty, and the same template with a value already in the first
  data row of the first control sheet.
\<close>

definition no_cells :: "int \<times> int \<Rightarrow> pyval" where
  "no_cells rc = PNone"

definition no_fills :: "int \<times> int \<Rightarrow> bool" where
  "no_fills rc = False"

definition control_sheet :: "string \<Rightarrow> string \<Rightarrow> worksheet" where
  "control_sheet name mnemonic =
     \<lparr>title = name, cells = no_cells((2, 1) := PStr mnemonic), fills = no_fills,
      max_row = 2, max_column = 1\<rparr>"

definition repro_template :: "string \<Rightarrow> world" where
  "repro_template mnemonic =
     \<lparr>book = [control_sheet ''REPRO controle 1'' mnemonic,
              control_sheet ''REPRO controle 2'' mnemonic,
              control_sheet ''REPRO controle 3'' mnemonic],
      console = []\<rparr>"

definition occupied_template :: "string \<Rightarrow> world" where
  "occupied_template mnemonic =
     \<lparr>book = [(control_sheet ''REPRO controle 1'' mnemonic)
                \<lparr>cells := no_cells((2, 1) := PStr mnemonic, (3, 1) := PStr ''4,2'')\<rparr>,
              control_sheet ''REPRO controle 2'' mnemonic,
              control_sheet ''REPRO controle 3'' mnemonic],
      console = []\<rparr>"

text \<open>A configuration with two testruns, one chemistry test and named QC tiers.\<close>

definition example_config :: config where
  "example_config =
     \<lparr>OFFSET_MAP = [''v_testrun1'' \<mapsto> 0, ''v_testrun2'' \<mapsto> 2],
      TEST_MNEMONICS = \<lparr>c_module = [''k_na''], e_module = [''m_tsh'']\<rparr>,
      QC_MATERIAL = \<lparr>low = [''VLK_PCCC1''], high = [''VLK_PCCC2'']\<rparr>,
      QC_MATERIAL_PRO = \<lparr>low = [''VLK_PC1''], high = [''VLK_PC2'']\<rparr>,
      SKIP_HIV = [''VLK_PC_HIV_1'']\<rparr>"


text \<open>Rows of a reproducibility export with one test column.\<close>

definition repro_row_of :: "string \<Rightarrow> string \<Rightarrow> string \<Rightarrow> string \<Rightarrow> repro_row" where
  "repro_row_of d qc an v =
     \<lparr>row_date = PStr d, row_qc_material = qc, row_analyser = an, row_values = [PStr v]\<rparr>"

text \<open>
  A non-reproducibility template: a chemistry sheet with the test \<open>k_na\<close> in row 2 and an
  immunoassay sheet with \<open>m_tsh\<close> in row 2, and an export of one row.
\<close>

definition module_sheet :: "string \<Rightarrow> string \<Rightarrow> worksheet" where
  "module_sheet name mnemonic =
     \<lparr>title = name, cells = no_cells((2, 2) := PStr mnemonic), fills = no_fills,
      max_row = 2, max_column = 2\<rparr>"

definition skml_template :: world where
  "skml_template =
     \<lparr>book = [module_sheet ''C-module'' ''k_na'', module_sheet ''E-module'' ''m_tsh''],
      console = []\<rparr>"

definition export_of :: "string \<Rightarrow> string \<Rightarrow> dataframe" where
  "export_of testrun result =
     \<lparr>df_columns = [''patient id'', ''testrun'', ''k_na''],
      df_rows = [[PStr ''8000-1'', PStr testrun, PStr result]]\<rparr>"

text \<open>A date parser that knows two dates.\<close>

definition example_parse :: "string \<Rightarrow> int option" where
  "example_parse s =
     (if s = ''01-02-2025'' then Some 1 else if s = ''02-02-2025'' then Some 2 else None)"

section \<open>Facts about the workbook\<close>

lemma get_sheet_put_sheet:
  "get_sheet wb (title ws) = Some old \<Longrightarrow> get_sheet (put_sheet wb ws) (title ws) = Some ws"
  unfolding get_sheet_def put_sheet_def
  by (induction wb) (auto split: if_splits)

lemma get_sheet_put_sheet_other:
  "n \<noteq> title ws \<Longrightarrow> get_sheet (put_sheet wb ws) n = get_sheet wb n"
  unfolding get_sheet_def put_sheet_def
  by (induction wb) (auto split: if_splits)

lemma get_sheet_title: "get_sheet wb n = Some ws \<Longrightarrow> title ws = n"
  unfolding get_sheet_def by (auto simp: find_Some_iff)

lemma sheetnames_put_sheet: "sheetnames (put_sheet wb ws) = sheetnames wb"
  unfolding sheetnames_def put_sheet_def by (induction wb) auto

lemma get_sheet_None_iff: "get_sheet wb n = None \<longleftrightarrow> n \<notin> set (sheetnames wb)"
  unfolding get_sheet_def sheetnames_def by (auto simp: find_None_iff)

lemma update_excel_cell_free:
  assumes "get_sheet (book w) s = Some ws" "1 \<le> r" "1 \<le> c" "is_empty (cells ws (r, c))"
  shows "update_excel_cell w s r c v =
           Inr (w\<lparr>book := put_sheet (book w)
                  (ws\<lparr>cells := (cells ws)((r, c) := v), fills := (fills ws)((r, c) := True)\<rparr>)\<rparr>)"
  using assms by (simp add: update_excel_cell_def)

lemma update_excel_cell_occupied:
  assumes "get_sheet (book w) s = Some ws" "1 \<le> r" "1 \<le> c" "\<not> is_empty (cells ws (r, c))"
  shows "update_excel_cell w s r c v = Inr w"
  using assms by (simp add: update_excel_cell_def)

lemma cell_value_after_write:
  assumes "get_sheet (book w) s = Some ws" "1 \<le> r" "1 \<le> c" "is_empty (cells ws (r, c))"
  shows "cell_value (final (update_excel_cell w s r c v)) s r c = Some v"
proof -
  let ?ws' = "ws\<lparr>cells := (cells ws)((r, c) := v), fills := (fills ws)((r, c) := True)\<rparr>"
  have t: "title ?ws' = s" using assms(1) by (simp add: get_sheet_title)
  have "get_sheet (put_sheet (book w) ?ws') s = Some ?ws'"
    using get_sheet_put_sheet [of "book w" ?ws' ws] assms(1) t by simp
  then show ?thesis
    using assms by (simp add: update_excel_cell_free cell_value_def)
qed

section \<open>Non-reproducibility: testrun offsets and module resolution\<close>

text \<open>
  Claim C1, as the code has it. For a testrun identifier that is not a key of the offset
  table, \<open>get_testrun_column_offset\<close> returns the default offset 40 with a warning and
  cannot fail. The row loop of \<open>process_skml\<close> does not call it: a row whose lower-cased
  testrun identifier is not a key of the table is skipped whole with a warning, the
  workbook is left as it was, and the loop goes on with the next row.
\<close>

theorem unknown_testrun_default_offset_and_row_skip:
  "(OFFSET_MAP cfg testrun = None \<longrightarrow>
      get_testrun_column_offset cfg testrun csv_row_index =
        (40, [Unknown_testrun_default testrun 40])) \<and>
   (OFFSET_MAP cfg (lower (str testrun_field)) = None \<longrightarrow>
      process_row cfg test_mnemonics mnemonic_start_col w (patient_id # testrun_field # vals) =
        Inr (w\<lparr>console := console w @
               [Unknown_testrun_skipping_row (lower (str testrun_field))]\<rparr>) \<and>
      process_rows cfg test_mnemonics mnemonic_start_col w
          ((patient_id # testrun_field # vals) # rest) =
        process_rows cfg test_mnemonics mnemonic_start_col
          (w\<lparr>console := console w @
               [Unknown_testrun_skipping_row (lower (str testrun_field))]\<rparr>) rest)"
  by (simp add: get_testrun_column_offset_def DEFAULT_TESTRUN_OFFSET_def process_row_def
      item_def domIff)

theorem unknown_testrun_default_offset_and_row_skip_witness:
  "get_testrun_column_offset example_config ''v_testrun7'' 7 =
     (40, [Unknown_testrun_default ''v_testrun7'' 40]) \<and>
   process_row example_config [''k_na''] 2 skml_template
       [PStr ''8000-1'', PStr ''V_Testrun7'', PStr ''1.5''] =
     Inr (skml_template\<lparr>console := console skml_template @
            [Unknown_testrun_skipping_row ''v_testrun7'']\<rparr>)"
  using unknown_testrun_default_offset_and_row_skip
          [of example_config "''v_testrun7''" 7 "PStr ''V_Testrun7''" "[''k_na'']" 2
              skml_template "PStr ''8000-1''" "[PStr ''1.5'']" "[]"]
  by (simp add: example_config_def lower_def lower_char_def)

text \<open>
  The claim as the specification states it fails: on an export whose only row has the
  unknown testrun \<open>v_testrun9\<close>, the cell the default offset would select (column 8 + 40
  of the row of \<open>k_na\<close>) stays empty, and the warning says the row is skipped.
\<close>

theorem unknown_testrun_row_is_dropped:
  "cell_value (final (process_skml example_config (export_of ''v_testrun9'' ''1.5'') skml_template))
      ''C-module'' 2 48 = Some PNone \<and>
   console (final (process_skml example_config (export_of ''v_testrun9'' ''1.5'') skml_template)) =
     [Unknown_testrun_skipping_row ''v_testrun9'']"
  by (simp add: process_skml_def export_of_def item_def lower_def lower_char_def
      process_row_def example_config_def skml_template_def cell_value_def get_sheet_def
      module_sheet_def no_cells_def)




section \<open>The spreadsheet writer\<close>

text \<open>
  Claim C4, as the code has it. On an existing sheet and coordinates from 1 on, a call on
  a cell that holds a non-empty value changes nothing; and after a first call on an empty
  cell with a value that is itself non-empty (neither \<open>None\<close> nor the empty string), the
  cell holds that value and a second call with any value changes nothing.
\<close>

theorem write_if_empty_first_write_wins:
  assumes "get_sheet (book w) s = Some ws" and "1 \<le> r" and "1 \<le> c"
  shows "(\<not> is_empty (cells ws (r, c)) \<longrightarrow> update_excel_cell w s r c v = Inr w) \<and>
         (is_empty (cells ws (r, c)) \<and> \<not> is_empty v1 \<longrightarrow>
            cell_value (final (update_excel_cell w s r c v1)) s r c = Some v1 \<and>
            update_excel_cell (final (update_excel_cell w s r c v1)) s r c v2 =
              Inr (final (update_excel_cell w s r c v1)))"
proof (intro conjI impI)
  assume "\<not> is_empty (cells ws (r, c))"
  then show "update_excel_cell w s r c v = Inr w"
    using assms by (rule_tac update_excel_cell_occupied) auto
next
  assume a: "is_empty (cells ws (r, c)) \<and> \<not> is_empty v1"
  then show "cell_value (final (update_excel_cell w s r c v1)) s r c = Some v1"
    using assms cell_value_after_write by blast
next
  assume a: "is_empty (cells ws (r, c)) \<and> \<not> is_empty v1"
  let ?ws' = "ws\<lparr>cells := (cells ws)((r, c) := v1), fills := (fills ws)((r, c) := True)\<rparr>"
  let ?w1 = "w\<lparr>book := put_sheet (book w) ?ws'\<rparr>"
  have t: "title ?ws' = s" using assms(1) by (simp add: get_sheet_title)
  have g: "get_sheet (book ?w1) s = Some ?ws'"
    using get_sheet_put_sheet [of "book w" ?ws' ws] assms(1) t by simp
  have f: "final (update_excel_cell w s r c v1) = ?w1"
    using a assms by (simp add: update_excel_cell_free)
  have "update_excel_cell ?w1 s r c v2 = Inr ?w1"
    using g assms(2,3) a by (rule_tac update_excel_cell_occupied [where ws = ?ws']) auto
  then show "update_excel_cell (final (update_excel_cell w s r c v1)) s r c v2 =
              Inr (final (update_excel_cell w s r c v1))"
    using f by simp
qed

theorem write_if_empty_first_write_wins_witness:
  "cell_value (final (update_excel_cell (repro_template ''k_na'') ''REPRO controle 1'' 3 1 (PStr ''1,5'')))
      ''REPRO controle 1'' 3 1 = Some (PStr ''1,5'') \<and>
   update_excel_cell (final (update_excel_cell (repro_template ''k_na'') ''REPRO controle 1'' 3 1 (PStr ''1,5'')))
      ''REPRO controle 1'' 3 1 (PStr ''2,5'') =
     Inr (final (update_excel_cell (repro_template ''k_na'') ''REPRO controle 1'' 3 1 (PStr ''1,5''))) \<and>
   update_excel_cell (occupied_template ''k_na'') ''REPRO controle 1'' 3 1 (PStr ''2,5'') =
     Inr (occupied_template ''k_na'')"
  using write_if_empty_first_write_wins
          [of "repro_template ''k_na''" "''REPRO controle 1''"
              "control_sheet ''REPRO controle 1'' ''k_na''" 3 1 "PStr ''1,5''" "PStr ''1,5''"
              "PStr ''2,5''"]
        write_if_empty_first_write_wins
          [of "occupied_template ''k_na''" "''REPRO controle 1''"
              "(control_sheet ''REPRO controle 1'' ''k_na'')
                 \<lparr>cells := no_cells((2, 1) := PStr ''k_na'', (3, 1) := PStr ''4,2'')\<rparr>"
              3 1 "PStr ''2,5''" "PStr ''1,5''" "PStr ''2,5''"]
  by (simp add: repro_template_def occupied_template_def control_sheet_def get_sheet_def
      is_empty_def no_cells_def)

text \<open>
  The claim as the specification states it, for every pair of values, fails when the
  first value is the empty string (the default of the parameter): the first call stores
  it, the cell still counts as empty, and the second call overwrites it.
\<close>

theorem write_if_empty_overwrites_empty_string:
  "cell_value (final (update_excel_cell (repro_template ''k_na'') ''REPRO controle 1'' 3 1 (PStr [])))
      ''REPRO controle 1'' 3 1 = Some (PStr []) \<and>
   cell_value (final (update_excel_cell
        (final (update_excel_cell (repro_template ''k_na'') ''REPRO controle 1'' 3 1 (PStr [])))
        ''REPRO controle 1'' 3 1 (PStr ''2,5'')))
      ''REPRO controle 1'' 3 1 = Some (PStr ''2,5'')"
  by (simp add: repro_template_def control_sheet_def get_sheet_def put_sheet_def
      update_excel_cell_def cell_value_def is_empty_def no_cells_def)

section \<open>Facts about the reproducibility loop\<close>

lemma emit_measurement_cases:
  "(\<exists>e st1. emit_measurement cfg pro t st (ts, v, qc, an) = Inl (e, st1) \<and>
        history st1 = history st \<and> row_control_1 st1 = row_control_1 st \<and>
        row_control_2 st1 = row_control_2 st)
   \<or> (\<exists>st1. emit_measurement cfg pro t st (ts, v, qc, an) = Inr st1 \<and>
        history st1 = history st \<and> row_control_1 st1 = row_control_1 st \<and>
        row_control_2 st1 = row_control_2 st \<and> book (es_world st1) = book (es_world st))
   \<or> (\<exists>st1 d c. emit_measurement cfg pro t st (ts, v, qc, an) = Inr st1 \<and>
        determine_repro_sheet cfg pro qc an = Inr d \<and>
        apply_hiv_sheet_override t qc d = ''REPRO controle 1'' \<and>
        history st1 = history st @
          [\<lparr>p_test = t, p_sheet = ''REPRO controle 1'', p_row = row_control_1 st, p_column = c,
            p_measurement = (ts, v, qc, an),
            p_stored = cell_free (es_world st) ''REPRO controle 1'' (row_control_1 st) c\<rparr>] \<and>
        row_control_1 st1 = row_control_1 st + 1 \<and> row_control_2 st1 = row_control_2 st)
   \<or> (\<exists>st1 d c. emit_measurement cfg pro t st (ts, v, qc, an) = Inr st1 \<and>
        determine_repro_sheet cfg pro qc an = Inr d \<and>
        apply_hiv_sheet_override t qc d = ''REPRO controle 2'' \<and>
        history st1 = history st @
          [\<lparr>p_test = t, p_sheet = ''REPRO controle 2'', p_row = row_control_2 st, p_column = c,
            p_measurement = (ts, v, qc, an),
            p_stored = cell_free (es_world st) ''REPRO controle 2'' (row_control_2 st) c\<rparr>] \<and>
        row_control_2 st1 = row_control_2 st + 1 \<and> row_control_1 st1 = row_control_1 st)"
  by (auto simp: emit_measurement_def warn_def Let_def
           split: sum.splits option.splits if_splits prod.splits)

lemma emit_measurement_raises:
  "determine_repro_sheet cfg pro qc an = Inl e \<Longrightarrow>
   emit_measurement cfg pro t st (ts, v, qc, an) = Inl (e, st)"
  by (simp add: emit_measurement_def)

lemma emit_loop_raises:
  "\<exists>m \<in> set ms. isl (determine_repro_sheet cfg pro (fst (snd (snd m))) (snd (snd (snd m)))) \<Longrightarrow>
   isl (emit_loop cfg pro t st ms)"
proof (induction ms arbitrary: st)
  case Nil
  then show ?case by simp
next
  case (Cons m ms)
  obtain ts v qc an where m: "m = (ts, v, qc, an)" by (cases m) auto
  show ?case
  proof (cases "emit_measurement cfg pro t st m")
    case (Inl x)
    then show ?thesis by simp
  next
    case (Inr st1)
    have "\<not> isl (determine_repro_sheet cfg pro qc an)"
    proof
      assume "isl (determine_repro_sheet cfg pro qc an)"
      then obtain e where "determine_repro_sheet cfg pro qc an = Inl e"
        by (cases "determine_repro_sheet cfg pro qc an") auto
      then show False using Inr m emit_measurement_raises by fastforce
    qed
    then have "\<exists>m \<in> set ms. isl (determine_repro_sheet cfg pro (fst (snd (snd m))) (snd (snd (snd m))))"
      using Cons.prems m by auto
    then show ?thesis using Cons.IH Inr by simp
  qed
qed

lemma emit_loop_append_raise:
  "emit_loop cfg pro t st pre = Inr st' \<Longrightarrow>
   emit_loop cfg pro t st (pre @ ms) = emit_loop cfg pro t st' ms"
  by (induction pre arbitrary: st) (auto split: sum.splits)

lemma write_repro_results_raises:
  "\<exists>entry \<in> set d. \<exists>m \<in> set (snd entry).
      isl (determine_repro_sheet cfg pro (fst (snd (snd m))) (snd (snd (snd m)))) \<Longrightarrow>
   isl (write_repro_results cfg pro st d)"
proof (induction d arbitrary: st)
  case Nil
  then show ?case by simp
next
  case (Cons entry d)
  show ?case
  proof (cases "write_test cfg pro st entry")
    case (Inl x)
    then show ?thesis by simp
  next
    case (Inr st1)
    have "\<not> (\<exists>m \<in> set (snd entry).
           isl (determine_repro_sheet cfg pro (fst (snd (snd m))) (snd (snd (snd m)))))"
    proof
      assume "\<exists>m \<in> set (snd entry).
           isl (determine_repro_sheet cfg pro (fst (snd (snd m))) (snd (snd (snd m))))"
      then have "\<exists>m \<in> set (sort_key fst (snd entry)).
           isl (determine_repro_sheet cfg pro (fst (snd (snd m))) (snd (snd (snd m))))"
        by simp
      then have "isl (write_test cfg pro st entry)"
        unfolding write_test_def by (rule emit_loop_raises)
      then show False using Inr by simp
    qed
    then have "\<exists>entry \<in> set d. \<exists>m \<in> set (snd entry).
      isl (determine_repro_sheet cfg pro (fst (snd (snd m))) (snd (snd (snd m))))"
      using Cons.prems by auto
    then show ?thesis using Cons.IH Inr by simp
  qed
qed

lemma value_to_write_str:
  "value_to_write (PStr s) = PStr (map (\<lambda>c. if c = CHR ''.'' then CHR '','' else c) s)"
  by (simp add: value_to_write_def replace_def)

section \<open>Reproducibility: resolution of the destination sheet\<close>




text \<open>
  Claim C8. A QC material that is not an interference material, is in no tier table and
  contains neither marker makes \<open>determine_repro_sheet\<close> raise, and so does an
  interference material with an analyser outside the five known ones. The error leaves
  the loop over the measurements at the measurement that raised, with the state reached
  before it, the measurements after it are not looked at, and it leaves
  \<open>write_repro_results\<close>: a batch that holds such a measurement anywhere ends in an
  error.
\<close>

theorem classification_error_halts_batch:
  "(qc \<notin> {''VLK_Hemolyse'', ''VLK_Ict-V'', ''VLK_Lip-V''} \<and>
    qc \<notin> set (low (QC_MATERIAL_PRO cfg)) \<and> qc \<notin> set (low (QC_MATERIAL cfg)) \<and>
    qc \<notin> set (high (QC_MATERIAL_PRO cfg)) \<and> qc \<notin> set (high (QC_MATERIAL cfg)) \<and>
    \<not> contains ''VLK_Bil'' qc \<and> \<not> contains ''VLK_Vrij'' qc \<longrightarrow>
      determine_repro_sheet cfg True qc an = Inl (Unknown_QC_material qc) \<and>
      isl (determine_repro_sheet cfg pro qc an)) \<and>
   (qc \<in> {''VLK_Hemolyse'', ''VLK_Ict-V'', ''VLK_Lip-V''} \<and>
    an \<notin> {''VLK_PRO-4_C503'', ''VLK_PRO-3_C503'', ''VLK_PRO-4_C703'', ''VLK_PRO-3_C703'',
           ''VLK_C500PRO-01''} \<longrightarrow>
      determine_repro_sheet cfg pro qc an = Inl (Unknown_analyser an qc)) \<and>
   (emit_loop cfg pro t st pre = Inr st' \<and> determine_repro_sheet cfg pro qc an = Inl e \<longrightarrow>
      emit_loop cfg pro t st (pre @ (ts, v, qc, an) # rest) = Inl (e, st')) \<and>
   (write_test cfg pro st entry = Inl x \<longrightarrow>
      write_repro_results cfg pro st (entry # others) = Inl x) \<and>
   ((\<exists>entry \<in> set d. \<exists>m \<in> set (snd entry).
       isl (determine_repro_sheet cfg pro (fst (snd (snd m))) (snd (snd (snd m))))) \<longrightarrow>
      isl (write_repro_results cfg pro st d))"
proof (intro conjI impI)
  assume a: "qc \<notin> {''VLK_Hemolyse'', ''VLK_Ict-V'', ''VLK_Lip-V''} \<and>
    qc \<notin> set (low (QC_MATERIAL_PRO cfg)) \<and> qc \<notin> set (low (QC_MATERIAL cfg)) \<and>
    qc \<notin> set (high (QC_MATERIAL_PRO cfg)) \<and> qc \<notin> set (high (QC_MATERIAL cfg)) \<and>
    \<not> contains ''VLK_Bil'' qc \<and> \<not> contains ''VLK_Vrij'' qc"
  then show "determine_repro_sheet cfg True qc an = Inl (Unknown_QC_material qc)"
    by (simp add: determine_repro_sheet_def)
  from a show "isl (determine_repro_sheet cfg pro qc an)"
    by (simp add: determine_repro_sheet_def)
next
  assume "qc \<in> {''VLK_Hemolyse'', ''VLK_Ict-V'', ''VLK_Lip-V''} \<and>
    an \<notin> {''VLK_PRO-4_C503'', ''VLK_PRO-3_C503'', ''VLK_PRO-4_C703'', ''VLK_PRO-3_C703'',
           ''VLK_C500PRO-01''}"
  then show "determine_repro_sheet cfg pro qc an = Inl (Unknown_analyser an qc)"
    by (simp add: determine_repro_sheet_def)
next
  assume a: "emit_loop cfg pro t st pre = Inr st' \<and> determine_repro_sheet cfg pro qc an = Inl e"
  then have "emit_loop cfg pro t st (pre @ (ts, v, qc, an) # rest) =
             emit_loop cfg pro t st' ((ts, v, qc, an) # rest)"
    by (simp add: emit_loop_append_raise)
  also have "\<dots> = Inl (e, st')"
    using a by (simp add: emit_measurement_raises)
  finally show "emit_loop cfg pro t st (pre @ (ts, v, qc, an) # rest) = Inl (e, st')" .
next
  assume "write_test cfg pro st entry = Inl x"
  then show "write_repro_results cfg pro st (entry # others) = Inl x" by simp
next
  assume "\<exists>entry \<in> set d. \<exists>m \<in> set (snd entry).
       isl (determine_repro_sheet cfg pro (fst (snd (snd m))) (snd (snd (snd m))))"
  then show "isl (write_repro_results cfg pro st d)"
    by (rule write_repro_results_raises)
qed

theorem classification_error_halts_batch_witness:
  "determine_repro_sheet example_config True ''VLK_XYZ'' ''VLK_PRO-3_C503'' =
     Inl (Unknown_QC_material ''VLK_XYZ'') \<and>
   determine_repro_sheet example_config True ''VLK_Hemolyse'' ''VLK_PRO-9'' =
     Inl (Unknown_analyser ''VLK_PRO-9'' ''VLK_Hemolyse'') \<and>
   emit_loop example_config True ''k_na'' (start (repro_template ''k_na''))
      [(1, PStr ''1.5'', ''VLK_PC1'', ''VLK_PRO-3_C503''),
       (2, PStr ''2.5'', ''VLK_XYZ'', ''VLK_PRO-3_C503''),
       (3, PStr ''3.5'', ''VLK_PC1'', ''VLK_PRO-3_C503'')] =
     Inl (Unknown_QC_material ''VLK_XYZ'',
          final (emit_loop example_config True ''k_na'' (start (repro_template ''k_na''))
                  [(1, PStr ''1.5'', ''VLK_PC1'', ''VLK_PRO-3_C503'')])) \<and>
   isl (write_repro_results example_config True (start (repro_template ''k_na''))
          [(''k_na'', [(1, PStr ''1.5'', ''VLK_PC1'', ''VLK_PRO-3_C503''),
                       (2, PStr ''2.5'', ''VLK_XYZ'', ''VLK_PRO-3_C503'')])])"
  using classification_error_halts_batch
          [where qc = "''VLK_XYZ''" and cfg = example_config and an = "''VLK_PRO-3_C503''"
             and pro = True and t = "''k_na''" and st = "start (repro_template ''k_na'')"
             and pre = "[(1, PStr ''1.5'', ''VLK_PC1'', ''VLK_PRO-3_C503'')]"
             and st' = "final (emit_loop example_config True ''k_na''
                                 (start (repro_template ''k_na''))
                                 [(1, PStr ''1.5'', ''VLK_PC1'', ''VLK_PRO-3_C503'')])"
             and e = "Unknown_QC_material ''VLK_XYZ''" and ts = 2 and v = "PStr ''2.5''"
             and rest = "[(3, PStr ''3.5'', ''VLK_PC1'', ''VLK_PRO-3_C503'')]"
             and d = "[(''k_na'', [(1, PStr ''1.5'', ''VLK_PC1'', ''VLK_PRO-3_C503''),
                                   (2, PStr ''2.5'', ''VLK_XYZ'', ''VLK_PRO-3_C503'')])]"]
        classification_error_halts_batch
          [where qc = "''VLK_Hemolyse''" and cfg = example_config and an = "''VLK_PRO-9''"
             and pro = True]
  by (simp add: emit_measurement_def determine_repro_sheet_def example_config_def
      apply_hiv_sheet_override_def hiv_mappings_def start_def repro_template_def
      get_sheet_def control_sheet_def get_repro_test_column_def REPRO_HEADER_ROW_def
      REPRO_FIRST_DATA_ROW_def lower_def lower_char_def update_repro_row_def sheetnames_def
      update_excel_cell_def is_empty_def no_cells_def cell_free_def Let_def put_sheet_def
      value_to_write_def replace_def)





section \<open>The decimal separator\<close>

text \<open>
  Claim C6, as the code has it. The value written is the value with every full stop
  replaced by a comma when it is a string, and the value itself when it is not a string;
  a string without a full stop is written unchanged. Both workflows pass the converted
  value to \<open>update_excel_cell\<close>: \<open>update_repro_row\<close> for a free cell of an existing
  sheet, and the field loop of \<open>process_skml\<close> once the sheet, the row and the offset
  are resolved.
\<close>

theorem decimal_point_replaced_in_every_string:
  "value_to_write (PStr s) = PStr (map (\<lambda>c. if c = CHR ''.'' then CHR '','' else c) s) \<and>
   (CHR ''.'' \<notin> set s \<longrightarrow> value_to_write (PStr s) = PStr s) \<and>
   (\<not> isinstance_str v \<longrightarrow> value_to_write v = v) \<and>
   (get_sheet (book w) sheet_name = Some ws \<and> 1 \<le> r \<and> 1 \<le> c \<and> is_empty (cells ws (r, c)) \<longrightarrow>
      cell_value (final (update_repro_row w sheet_name r (Some c) (ts, x, qc, an))) sheet_name r c =
        Some (value_to_write x)) \<and>
   (item row (index_of tms m + first_col) = Inr x \<and> \<not> (x = PStr ''-'' \<or> x = PNone) \<and>
    get_sheet_and_column_base m pid (TEST_MNEMONICS cfg) = Inr (Some (i, b), wn) \<and>
    item (book w) i = Inr sheet \<and> find_test_row_in_worksheet sheet m = Inr (Some r) \<and>
    OFFSET_MAP cfg t = Some off \<longrightarrow>
      process_field cfg tms first_col row pid t w m =
        update_excel_cell w (title sheet) r (b + off) (value_to_write x))"
proof (intro conjI impI)
  show "value_to_write (PStr s) = PStr (map (\<lambda>c. if c = CHR ''.'' then CHR '','' else c) s)"
    by (rule value_to_write_str)
next
  assume "CHR ''.'' \<notin> set s"
  then have "map (\<lambda>c. if c = CHR ''.'' then CHR '','' else c) s = s"
    by (induction s) auto
  then show "value_to_write (PStr s) = PStr s"
    by (simp add: value_to_write_str)
next
  assume "\<not> isinstance_str v"
  then show "value_to_write v = v" by (simp add: value_to_write_def)
next
  assume a: "get_sheet (book w) sheet_name = Some ws \<and> 1 \<le> r \<and> 1 \<le> c \<and> is_empty (cells ws (r, c))"
  then have "sheet_name \<in> set (sheetnames (book w))"
    using get_sheet_None_iff [of "book w" sheet_name] by auto
  then have "update_repro_row w sheet_name r (Some c) (ts, x, qc, an) =
               update_excel_cell w sheet_name r c (value_to_write x)"
    by (simp add: update_repro_row_def)
  then show "cell_value (final (update_repro_row w sheet_name r (Some c) (ts, x, qc, an))) sheet_name r c =
        Some (value_to_write x)"
    using a cell_value_after_write [of w sheet_name ws r c "value_to_write x"] by simp
next
  assume "item row (index_of tms m + first_col) = Inr x \<and> \<not> (x = PStr ''-'' \<or> x = PNone) \<and>
    get_sheet_and_column_base m pid (TEST_MNEMONICS cfg) = Inr (Some (i, b), wn) \<and>
    item (book w) i = Inr sheet \<and> find_test_row_in_worksheet sheet m = Inr (Some r) \<and>
    OFFSET_MAP cfg t = Some off"
  then show "process_field cfg tms first_col row pid t w m =
        update_excel_cell w (title sheet) r (b + off) (value_to_write x)"
    by (simp add: process_field_def)
qed

theorem decimal_point_replaced_in_every_string_witness:
  "value_to_write (PStr ''1.5'') = PStr ''1,5'' \<and>
   value_to_write (PStr ''neg'') = PStr ''neg'' \<and>
   value_to_write (PObj True ''1.5'') = PObj True ''1.5'' \<and>
   cell_value (final (update_repro_row (repro_template ''k_na'') ''REPRO controle 1'' 3 (Some 1)
       (1, PStr ''1.5'', ''VLK_PC1'', ''VLK_PRO-3_C503''))) ''REPRO controle 1'' 3 1 =
     Some (PStr ''1,5'') \<and>
   cell_value (final (process_field example_config [''k_na''] 2
       [PStr ''8000-1'', PStr ''v_testrun2'', PStr ''1.5''] (PStr ''8000-1'') ''v_testrun2''
       skml_template ''k_na'')) ''C-module'' 2 10 = Some (PStr ''1,5'')"
  using decimal_point_replaced_in_every_string
          [where s = "''1.5''" and v = "PObj True ''1.5''" and w = "repro_template ''k_na''"
             and sheet_name = "''REPRO controle 1''"
             and ws = "control_sheet ''REPRO controle 1'' ''k_na''" and r = 3 and c = 1
             and ts = 1 and x = "PStr ''1.5''" and qc = "''VLK_PC1''"
             and an = "''VLK_PRO-3_C503''"]
        decimal_point_replaced_in_every_string
          [where s = "''neg''" and v = PNone and w = skml_template
             and row = "[PStr ''8000-1'', PStr ''v_testrun2'', PStr ''1.5'']"
             and tms = "[''k_na'']" and m = "''k_na''" and first_col = 2
             and x = "PStr ''1.5''" and pid = "PStr ''8000-1''" and cfg = example_config
             and i = 0 and b = 8 and wn = "[]" and sheet = "module_sheet ''C-module'' ''k_na''"
             and r = 2 and t = "''v_testrun2''" and off = 2]
  by (simp add: item_def lower_def lower_char_def
      process_field_def example_config_def skml_template_def cell_value_def get_sheet_def
      module_sheet_def no_cells_def get_sheet_and_column_base_def find_test_row_in_worksheet_def
      EXCEL_ROW_START_def EXCEL_NAME_COLUMN_def strip_def isspace_def update_excel_cell_def
      C_MODULE_SHEET_INDEX_def C_MODULE_BASE_OFFSET_8000_def value_to_write_def replace_def
      is_empty_def put_sheet_def update_repro_row_def sheetnames_def repro_template_def
      control_sheet_def)

text \<open>
  The claim as the specification states it, that a string which is not a number passes
  through unchanged, fails: the text \<open>n.a.\<close> is written as \<open>n,a,\<close>.
\<close>

theorem string_with_point_is_rewritten:
  "cell_value (final (update_repro_row (repro_template ''k_na'') ''REPRO controle 1'' 3 (Some 1)
       (1, PStr ''n.a.'', ''VLK_PC1'', ''VLK_PRO-3_C503''))) ''REPRO controle 1'' 3 1 =
     Some (PStr ''n,a,'')"
  by (simp add: update_repro_row_def sheetnames_def repro_template_def control_sheet_def
      update_excel_cell_def get_sheet_def put_sheet_def is_empty_def no_cells_def
      value_to_write_def replace_def cell_value_def)

section \<open>Facts about collecting the measurements\<close>

lemma append_measurement_keeps:
  "\<forall>entry \<in> set d. \<forall>m \<in> set (snd entry). P m \<Longrightarrow> P x \<Longrightarrow>
   \<forall>entry \<in> set (append_measurement d k x). \<forall>m \<in> set (snd entry). P m"
  by (fastforce simp: append_measurement_def split: if_splits)

lemma collect_values_keeps:
  "\<forall>entry \<in> set d. \<forall>m \<in> set (snd entry). P m \<Longrightarrow> (\<And>v. P (ts, v, qc, an)) \<Longrightarrow>
   \<forall>entry \<in> set (foldl (\<lambda>d (mnemonic, v).
                      if placeholder v then d
                      else append_measurement d mnemonic (ts, v, qc, an)) d zs).
     \<forall>m \<in> set (snd entry). P m"
proof (induction zs arbitrary: d)
  case Nil
  then show ?case by simp
next
  case (Cons z zs)
  obtain k v where z: "z = (k, v)" by (cases z) auto
  show ?case
  proof (cases "placeholder v")
    case True
    then show ?thesis using Cons z by simp
  next
    case False
    have "\<forall>entry \<in> set (append_measurement d k (ts, v, qc, an)). \<forall>m \<in> set (snd entry). P m"
      using Cons.prems by (intro append_measurement_keeps) auto
    then show ?thesis using Cons.IH [OF _ Cons.prems(2)] False z by simp
  qed
qed

lemma build_row_keeps:
  assumes "\<forall>entry \<in> set (fst acc). \<forall>m \<in> set (snd entry). fst (snd (snd m)) \<notin> set (SKIP_HIV cfg)"
  shows "\<forall>entry \<in> set (fst (build_row cfg parse pro n tms acc row)).
           \<forall>m \<in> set (snd entry). fst (snd (snd m)) \<notin> set (SKIP_HIV cfg)"
proof (cases "parse (str (row_date row))")
  case None
  then show ?thesis using assms by (simp add: build_row_def)
next
  case (Some ts)
  show ?thesis
  proof (cases "row_qc_material row \<in> set (SKIP_HIV cfg)")
    case True
    then show ?thesis using assms Some by (simp add: build_row_def)
  next
    case False
    have "\<forall>entry \<in> set (foldl (\<lambda>d (mnemonic, v).
                      if placeholder v then d
                      else append_measurement d mnemonic
                             (ts, v, row_qc_material row, row_analyser row))
                   (fst acc) (zip tms (row_values row))).
            \<forall>m \<in> set (snd entry). fst (snd (snd m)) \<notin> set (SKIP_HIV cfg)"
      using assms False by (intro collect_values_keeps) auto
    then show ?thesis using assms Some False by (simp add: build_row_def)
  qed
qed

lemma build_rows_keep:
  "\<forall>entry \<in> set (fst acc). \<forall>m \<in> set (snd entry). fst (snd (snd m)) \<notin> set (SKIP_HIV cfg) \<Longrightarrow>
   \<forall>entry \<in> set (fst (foldl (build_row cfg parse pro n tms) acc rows)).
     \<forall>m \<in> set (snd entry). fst (snd (snd m)) \<notin> set (SKIP_HIV cfg)"
proof (induction rows arbitrary: acc)
  case Nil
  then show ?case by simp
next
  case (Cons row rows)
  have "\<forall>entry \<in> set (fst (build_row cfg parse pro n tms acc row)).
          \<forall>m \<in> set (snd entry). fst (snd (snd m)) \<notin> set (SKIP_HIV cfg)"
    using Cons.prems by (rule build_row_keeps)
  then show ?case using Cons.IH by simp
qed

lemma build_row_fst:
  "fst (build_row cfg parse pro n tms acc row) = fst (build_row cfg parse pro n tms (fst acc, l) row)"
  by (cases "parse (str (row_date row))") (simp_all add: build_row_def)

lemma build_row_excluded:
  "row_qc_material row \<in> set (SKIP_HIV cfg) \<Longrightarrow>
   fst (build_row cfg parse pro n tms acc row) = fst acc"
  by (cases "parse (str (row_date row))") (simp_all add: build_row_def)

lemma build_rows_fst:
  "fst (foldl (build_row cfg parse pro n tms) acc rows) =
   fst (foldl (build_row cfg parse pro n tms) (fst acc, l) rows)"
proof (induction rows arbitrary: acc l)
  case Nil
  then show ?case by simp
next
  case (Cons row rows)
  have "fst (foldl (build_row cfg parse pro n tms) (build_row cfg parse pro n tms acc row) rows) =
        fst (foldl (build_row cfg parse pro n tms)
               (fst (build_row cfg parse pro n tms acc row),
                snd (build_row cfg parse pro n tms (fst acc, l) row)) rows)"
    by (rule Cons.IH)
  also have "(fst (build_row cfg parse pro n tms acc row),
                snd (build_row cfg parse pro n tms (fst acc, l) row)) =
             build_row cfg parse pro n tms (fst acc, l) row"
    using build_row_fst [of cfg parse pro n tms acc row l] by (simp add: prod_eq_iff)
  finally show ?case by simp
qed

lemma build_rows_filter:
  "fst (foldl (build_row cfg parse pro n tms) acc rows) =
   fst (foldl (build_row cfg parse pro n tms) acc
          (filter (\<lambda>r. row_qc_material r \<notin> set (SKIP_HIV cfg)) rows))"
proof (induction rows arbitrary: acc)
  case Nil
  then show ?case by simp
next
  case (Cons row rows)
  show ?case
  proof (cases "row_qc_material row \<in> set (SKIP_HIV cfg)")
    case True
    have "fst (foldl (build_row cfg parse pro n tms) (build_row cfg parse pro n tms acc row) rows) =
          fst (foldl (build_row cfg parse pro n tms)
                 (fst (build_row cfg parse pro n tms acc row), snd acc) rows)"
      by (rule build_rows_fst)
    also have "\<dots> = fst (foldl (build_row cfg parse pro n tms) acc rows)"
      using True by (simp add: build_row_excluded)
    finally show ?thesis using True Cons.IH by simp
  next
    case False
    then show ?thesis using Cons.IH by simp
  qed
qed

section \<open>Facts about the history of a run\<close>

lemma subseq_set_subset: "subseq xs ys \<Longrightarrow> set xs \<subseteq> set ys"
  by (induction rule: list_emb.induct) auto


lemma emit_loop_history:
  "\<exists>new. history (final (emit_loop cfg pro t st ms)) = history st @ new \<and>
     subseq (map p_measurement new) ms \<and>
     (\<forall>p \<in> set new. p_test p = t \<and>
        (p_sheet p = ''REPRO controle 1'' \<and> row_control_1 st \<le> p_row p \<or>
         p_sheet p = ''REPRO controle 2'' \<and> row_control_2 st \<le> p_row p)) \<and>
     sorted_wrt (<) (map p_row (filter (\<lambda>p. p_sheet p = s) new))"
proof (induction ms arbitrary: st)
  case Nil
  show ?case by (intro exI [of _ "[]"]) simp
next
  case (Cons m ms)
  obtain ts v qc an where m: "m = (ts, v, qc, an)" by (cases m) auto
  from emit_measurement_cases [of cfg pro t st ts v qc an] show ?case
  proof (elim disjE exE conjE)
    fix e st1
    assume "emit_measurement cfg pro t st (ts, v, qc, an) = Inl (e, st1)"
      and "history st1 = history st"
    then show ?thesis by (intro exI [of _ "[]"]) (simp add: m)
  next
    fix st1
    assume e: "emit_measurement cfg pro t st (ts, v, qc, an) = Inr st1"
      and h: "history st1 = history st"
      and r: "row_control_1 st1 = row_control_1 st" "row_control_2 st1 = row_control_2 st"
    from Cons.IH [of st1] obtain new where
      n: "history (final (emit_loop cfg pro t st1 ms)) = history st1 @ new"
        "subseq (map p_measurement new) ms"
        "\<forall>p \<in> set new. p_test p = t \<and>
           (p_sheet p = ''REPRO controle 1'' \<and> row_control_1 st1 \<le> p_row p \<or>
            p_sheet p = ''REPRO controle 2'' \<and> row_control_2 st1 \<le> p_row p)"
        "sorted_wrt (<) (map p_row (filter (\<lambda>p. p_sheet p = s) new))"
      by blast
    show ?thesis
      using e h r n by (intro exI [of _ new]) (simp add: m list_emb_Cons)
  next
    fix st1 d c
    assume e: "emit_measurement cfg pro t st (ts, v, qc, an) = Inr st1"
      and h: "history st1 = history st @
          [\<lparr>p_test = t, p_sheet = ''REPRO controle 1'', p_row = row_control_1 st, p_column = c,
            p_measurement = (ts, v, qc, an),
            p_stored = cell_free (es_world st) ''REPRO controle 1'' (row_control_1 st) c\<rparr>]"
      and r: "row_control_1 st1 = row_control_1 st + 1" "row_control_2 st1 = row_control_2 st"
    let ?p = "\<lparr>p_test = t, p_sheet = ''REPRO controle 1'', p_row = row_control_1 st, p_column = c,
            p_measurement = (ts, v, qc, an),
            p_stored = cell_free (es_world st) ''REPRO controle 1'' (row_control_1 st) c\<rparr>"
    from Cons.IH [of st1] obtain new where
      n: "history (final (emit_loop cfg pro t st1 ms)) = history st1 @ new"
        "subseq (map p_measurement new) ms"
        "\<forall>p \<in> set new. p_test p = t \<and>
           (p_sheet p = ''REPRO controle 1'' \<and> row_control_1 st1 \<le> p_row p \<or>
            p_sheet p = ''REPRO controle 2'' \<and> row_control_2 st1 \<le> p_row p)"
        "sorted_wrt (<) (map p_row (filter (\<lambda>p. p_sheet p = s) new))"
      by blast
    have a: "history (final (emit_loop cfg pro t st (m # ms))) = history st @ (?p # new)"
      using e h n(1) by (simp add: m)
    have b: "subseq (map p_measurement (?p # new)) (m # ms)"
      using n(2) by (simp add: m)
    have c: "\<forall>p \<in> set (?p # new). p_test p = t \<and>
           (p_sheet p = ''REPRO controle 1'' \<and> row_control_1 st \<le> p_row p \<or>
            p_sheet p = ''REPRO controle 2'' \<and> row_control_2 st \<le> p_row p)"
      using n(3) r by auto
    have d: "sorted_wrt (<) (map p_row (filter (\<lambda>p. p_sheet p = s) (?p # new)))"
      using n(3,4) r by auto
    show ?thesis
      using a b c d by (intro exI [of _ "?p # new"]) blast
  next
    fix st1 d c
    assume e: "emit_measurement cfg pro t st (ts, v, qc, an) = Inr st1"
      and h: "history st1 = history st @
          [\<lparr>p_test = t, p_sheet = ''REPRO controle 2'', p_row = row_control_2 st, p_column = c,
            p_measurement = (ts, v, qc, an),
            p_stored = cell_free (es_world st) ''REPRO controle 2'' (row_control_2 st) c\<rparr>]"
      and r: "row_control_2 st1 = row_control_2 st + 1" "row_control_1 st1 = row_control_1 st"
    let ?p = "\<lparr>p_test = t, p_sheet = ''REPRO controle 2'', p_row = row_control_2 st, p_column = c,
            p_measurement = (ts, v, qc, an),
            p_stored = cell_free (es_world st) ''REPRO controle 2'' (row_control_2 st) c\<rparr>"
    from Cons.IH [of st1] obtain new where
      n: "history (final (emit_loop cfg pro t st1 ms)) = history st1 @ new"
        "subseq (map p_measurement new) ms"
        "\<forall>p \<in> set new. p_test p = t \<and>
           (p_sheet p = ''REPRO controle 1'' \<and> row_control_1 st1 \<le> p_row p \<or>
            p_sheet p = ''REPRO controle 2'' \<and> row_control_2 st1 \<le> p_row p)"
        "sorted_wrt (<) (map p_row (filter (\<lambda>p. p_sheet p = s) new))"
      by blast
    have a: "history (final (emit_loop cfg pro t st (m # ms))) = history st @ (?p # new)"
      using e h n(1) by (simp add: m)
    have b: "subseq (map p_measurement (?p # new)) (m # ms)"
      using n(2) by (simp add: m)
    have c: "\<forall>p \<in> set (?p # new). p_test p = t \<and>
           (p_sheet p = ''REPRO controle 1'' \<and> row_control_1 st \<le> p_row p \<or>
            p_sheet p = ''REPRO controle 2'' \<and> row_control_2 st \<le> p_row p)"
      using n(3) r by auto
    have d: "sorted_wrt (<) (map p_row (filter (\<lambda>p. p_sheet p = s) (?p # new)))"
      using n(3,4) r by auto
    show ?thesis
      using a b c d by (intro exI [of _ "?p # new"]) blast
  qed
qed

lemma write_test_history:
  "\<exists>new. history (final (write_test cfg pro st entry)) = history st @ new \<and>
     subseq (map p_measurement new) (sort_key fst (snd entry)) \<and>
     (\<forall>p \<in> set new. p_test p = fst entry) \<and>
     sorted_wrt (<) (map p_row (filter (\<lambda>p. p_sheet p = s) new))"
proof -
  let ?st = "st\<lparr>row_control_1 := REPRO_FIRST_DATA_ROW, row_control_2 := REPRO_FIRST_DATA_ROW\<rparr>"
  from emit_loop_history [of cfg pro "fst entry" ?st "sort_key fst (snd entry)" s]
  obtain new where
    n: "history (final (emit_loop cfg pro (fst entry) ?st (sort_key fst (snd entry)))) =
          history ?st @ new"
       "subseq (map p_measurement new) (sort_key fst (snd entry))"
       "\<forall>p \<in> set new. p_test p = fst entry"
       "sorted_wrt (<) (map p_row (filter (\<lambda>p. p_sheet p = s) new))"
    by blast
  show ?thesis
    using n by (intro exI [of _ new]) (simp add: write_test_def)
qed

lemma write_repro_results_step:
  "final (write_repro_results cfg pro st (entry # d)) =
     (case write_test cfg pro st entry of
        Inl x \<Rightarrow> final (write_test cfg pro st entry)
      | Inr st1 \<Rightarrow> final (write_repro_results cfg pro st1 d))"
  by (simp split: sum.splits)



lemma write_repro_results_measurements:
  "\<forall>p \<in> set (history (final (write_repro_results cfg pro st d))).
     p \<in> set (history st) \<or> (\<exists>entry \<in> set d. p_measurement p \<in> set (snd entry))"
proof (induction d arbitrary: st)
  case Nil
  then show ?case by simp
next
  case (Cons entry d)
  from write_test_history [of cfg pro st entry "[]"] obtain new where
    n: "history (final (write_test cfg pro st entry)) = history st @ new"
       "subseq (map p_measurement new) (sort_key fst (snd entry))"
    by blast
  have sub: "\<forall>p \<in> set new. p_measurement p \<in> set (snd entry)"
    using subseq_set_subset [OF n(2)] by auto
  show ?case
  proof (cases "write_test cfg pro st entry")
    case (Inl x)
    then show ?thesis using n(1) sub by (auto simp: write_repro_results_step)
  next
    case (Inr st1)
    have "\<forall>p \<in> set (history (final (write_repro_results cfg pro st1 d))).
            p \<in> set (history st1) \<or> (\<exists>entry \<in> set d. p_measurement p \<in> set (snd entry))"
      by (rule Cons.IH)
    then show ?thesis using n(1) sub Inr by (auto simp: write_repro_results_step)
  qed
qed

section \<open>Reproducibility: what is collected and where it is written\<close>

text \<open>
  Claim C9. The dictionary \<open>build_repro_measurements\<close> returns is the one it returns
  for the export with the rows of an excluded QC material removed, no measurement it
  holds has an excluded QC material, and no call of \<open>update_repro_row\<close> made by
  \<open>write_repro_results\<close> on that dictionary carries a measurement of an excluded QC
  material.
\<close>

theorem excluded_qc_material_is_never_collected:
  "fst (build_repro_measurements cfg parse answer rows tms pro) =
     fst (build_repro_measurements cfg parse answer
            (filter (\<lambda>r. row_qc_material r \<notin> set (SKIP_HIV cfg)) rows) tms pro) \<and>
   (\<forall>entry \<in> set (fst (build_repro_measurements cfg parse answer rows tms pro)).
      \<forall>m \<in> set (snd entry). fst (snd (snd m)) \<notin> set (SKIP_HIV cfg)) \<and>
   (\<forall>p \<in> set (history (final (write_repro_results cfg pro (start w)
                   (fst (build_repro_measurements cfg parse answer rows tms pro))))).
      fst (snd (snd (p_measurement p))) \<notin> set (SKIP_HIV cfg))"
proof (intro conjI)
  show "fst (build_repro_measurements cfg parse answer rows tms pro) =
     fst (build_repro_measurements cfg parse answer
            (filter (\<lambda>r. row_qc_material r \<notin> set (SKIP_HIV cfg)) rows) tms pro)"
    unfolding build_repro_measurements_def Let_def by (rule build_rows_filter)
  have "\<forall>entry \<in> set (fst (empty_measurements tms, [] :: event list)).
          \<forall>m \<in> set (snd entry). fst (snd (snd m)) \<notin> set (SKIP_HIV cfg)"
    by (auto simp: empty_measurements_def)
  then show c: "\<forall>entry \<in> set (fst (build_repro_measurements cfg parse answer rows tms pro)).
      \<forall>m \<in> set (snd entry). fst (snd (snd m)) \<notin> set (SKIP_HIV cfg)"
    unfolding build_repro_measurements_def Let_def by (rule build_rows_keep)
  show "\<forall>p \<in> set (history (final (write_repro_results cfg pro (start w)
                   (fst (build_repro_measurements cfg parse answer rows tms pro))))).
      fst (snd (snd (p_measurement p))) \<notin> set (SKIP_HIV cfg)"
    using write_repro_results_measurements
            [of cfg pro "start w" "fst (build_repro_measurements cfg parse answer rows tms pro)"] c
    by (auto simp: start_def)
qed

theorem excluded_qc_material_is_never_collected_witness:
  "''VLK_PC_HIV_1'' \<in> set (SKIP_HIV example_config) \<and>
   fst (build_repro_measurements example_config example_parse (Some 3)
          [repro_row_of ''01-02-2025'' ''VLK_PC_HIV_1'' ''VLK_PRO-3_C503'' ''1.0'',
           repro_row_of ''02-02-2025'' ''VLK_PC1'' ''VLK_PRO-3_C503'' ''2.0'']
          [''k_na''] True) =
     [(''k_na'', [(2, PStr ''2.0'', ''VLK_PC1'', ''VLK_PRO-3_C503'')])] \<and>
   map p_measurement (history (final (write_repro_results example_config True
      (start (repro_template ''k_na''))
      (fst (build_repro_measurements example_config example_parse (Some 3)
          [repro_row_of ''01-02-2025'' ''VLK_PC_HIV_1'' ''VLK_PRO-3_C503'' ''1.0'',
           repro_row_of ''02-02-2025'' ''VLK_PC1'' ''VLK_PRO-3_C503'' ''2.0'']
          [''k_na''] True))))) =
     [(2, PStr ''2.0'', ''VLK_PC1'', ''VLK_PRO-3_C503'')]"
  using excluded_qc_material_is_never_collected
          [of example_config example_parse "Some 3"
              "[repro_row_of ''01-02-2025'' ''VLK_PC_HIV_1'' ''VLK_PRO-3_C503'' ''1.0'',
                repro_row_of ''02-02-2025'' ''VLK_PC1'' ''VLK_PRO-3_C503'' ''2.0'']"
              "[''k_na'']" True "repro_template ''k_na''"]
  by (simp add: build_repro_measurements_def build_row_def repro_row_of_def example_parse_def
      empty_measurements_def append_measurement_def placeholder_def pro_token_def
      write_test_def sort_key_def
      emit_measurement_def determine_repro_sheet_def example_config_def
      apply_hiv_sheet_override_def hiv_mappings_def start_def repro_template_def
      get_sheet_def control_sheet_def get_repro_test_column_def REPRO_HEADER_ROW_def
      REPRO_FIRST_DATA_ROW_def lower_def lower_char_def update_repro_row_def sheetnames_def
      update_excel_cell_def is_empty_def no_cells_def cell_free_def Let_def put_sheet_def
      value_to_write_def replace_def)



section \<open>Reproducibility: the row counters\<close>

lemma get_repro_test_column_from_ge:
  "get_repro_test_column_from ws m c n = Inr (Some k) \<Longrightarrow> c \<le> k"
proof (induction n arbitrary: c)
  case 0
  then show ?case by simp
next
  case (Suc n)
  show ?case
  proof (cases "cells ws (REPRO_HEADER_ROW, c)")
    case PNone
    then have "get_repro_test_column_from ws m (c + 1) n = Inr (Some k)"
      using Suc.prems by simp
    then have "c + 1 \<le> k" by (rule Suc.IH)
    then show ?thesis by simp
  next
    case (PStr x)
    show ?thesis
    proof (cases "lower x = lower m")
      case True
      then show ?thesis using Suc.prems PStr by simp
    next
      case False
      then have "get_repro_test_column_from ws m (c + 1) n = Inr (Some k)"
        using Suc.prems PStr by simp
      then have "c + 1 \<le> k" by (rule Suc.IH)
      then show ?thesis by simp
    qed
  next
    case (PObj b x)
    then show ?thesis using Suc.prems by simp
  qed
qed

lemma update_repro_row_on_sheet:
  assumes "get_sheet (book w) n = Some ws" and "1 \<le> r" and "1 \<le> c"
  shows "update_repro_row w n r (Some c) m =
           (if is_empty (cells ws (r, c)) then
              Inr (w\<lparr>book := put_sheet (book w)
                     (ws\<lparr>cells := (cells ws)((r, c) := value_to_write (fst (snd m))),
                         fills := (fills ws)((r, c) := True)\<rparr>)\<rparr>)
            else Inr w)"
proof -
  have "n \<in> set (sheetnames (book w))"
    using assms(1) get_sheet_None_iff [of "book w" n] by auto
  then show ?thesis
    using assms by (simp add: update_repro_row_def update_excel_cell_def)
qed

lemma update_excel_cell_other_sheet:
  "s \<noteq> n \<Longrightarrow>
   get_sheet (book (final (update_excel_cell w n r c v))) s = get_sheet (book w) s"
proof (cases "get_sheet (book w) n")
  case None
  then show ?thesis by (simp add: update_excel_cell_def)
next
  case (Some ws)
  assume "s \<noteq> n"
  then have "s \<noteq> title ws" using Some by (simp add: get_sheet_title)
  then show ?thesis
    using Some by (simp add: update_excel_cell_def get_sheet_put_sheet_other)
qed

lemma update_repro_row_other_sheet:
  "s \<noteq> n \<Longrightarrow>
   get_sheet (book (final (update_repro_row w n r c m))) s = get_sheet (book w) s"
  by (cases c) (simp_all add: update_repro_row_def update_excel_cell_other_sheet)

lemma emit_measurement_other_sheet:
  assumes "s \<noteq> ''REPRO controle 1''" and "s \<noteq> ''REPRO controle 2''"
  shows "get_sheet (book (es_world (final (emit_measurement cfg pro t st m)))) s =
         get_sheet (book (es_world st)) s"
proof -
  obtain ts v qc an where m: "m = (ts, v, qc, an)" by (cases m) auto
  show ?thesis
  proof (cases "determine_repro_sheet cfg pro qc an")
    case (Inl e)
    then show ?thesis by (simp add: emit_measurement_def m Let_def)
  next
    case det: (Inr d)
    show ?thesis
    proof (cases "get_sheet (book (es_world st)) (apply_hiv_sheet_override t qc d)")
      case None
      then show ?thesis using det by (simp add: emit_measurement_def m Let_def)
    next
      case sheet: (Some ws)
      show ?thesis
      proof (cases "get_repro_test_column ws t")
        case (Inl e)
        then show ?thesis using det sheet by (simp add: emit_measurement_def m Let_def)
      next
        case col: (Inr co)
        show ?thesis
        proof (cases co)
          case None
          then show ?thesis using det sheet col by (simp add: emit_measurement_def m warn_def Let_def)
        next
          case (Some c)
          consider (one) "apply_hiv_sheet_override t qc d = ''REPRO controle 1''"
            | (two) "apply_hiv_sheet_override t qc d = ''REPRO controle 2''"
            | (other) "apply_hiv_sheet_override t qc d \<noteq> ''REPRO controle 1''"
                      "apply_hiv_sheet_override t qc d \<noteq> ''REPRO controle 2''"
            by blast
          then show ?thesis
          proof cases
            case one
            have "get_sheet (book (final (update_repro_row (es_world st) ''REPRO controle 1''
                     (row_control_1 st) (Some c) (ts, v, qc, an)))) s =
                  get_sheet (book (es_world st)) s"
              using assms(1) by (rule update_repro_row_other_sheet)
            then show ?thesis
              using det sheet col Some one
              by (cases "update_repro_row (es_world st) ''REPRO controle 1''
                     (row_control_1 st) (Some c) (ts, v, qc, an)")
                 (auto simp: emit_measurement_def m Let_def)
          next
            case two
            have "get_sheet (book (final (update_repro_row (es_world st) ''REPRO controle 2''
                     (row_control_2 st) (Some c) (ts, v, qc, an)))) s =
                  get_sheet (book (es_world st)) s"
              using assms(2) by (rule update_repro_row_other_sheet)
            then show ?thesis
              using det sheet col Some two
              by (cases "update_repro_row (es_world st) ''REPRO controle 2''
                     (row_control_2 st) (Some c) (ts, v, qc, an)")
                 (auto simp: emit_measurement_def m Let_def)
          next
            case other
            then show ?thesis using det sheet col Some by (simp add: emit_measurement_def m Let_def)
          qed
        qed
      qed
    qed
  qed
qed

lemma emit_loop_other_sheet:
  assumes "s \<noteq> ''REPRO controle 1''" and "s \<noteq> ''REPRO controle 2''"
  shows "get_sheet (book (es_world (final (emit_loop cfg pro t st ms)))) s =
         get_sheet (book (es_world st)) s"
proof (induction ms arbitrary: st)
  case Nil
  show ?case by simp
next
  case (Cons m ms)
  have one: "get_sheet (book (es_world (final (emit_measurement cfg pro t st m)))) s =
             get_sheet (book (es_world st)) s"
    using assms by (rule emit_measurement_other_sheet)
  show ?case
  proof (cases "emit_measurement cfg pro t st m")
    case (Inl x)
    then show ?thesis using one by simp
  next
    case (Inr st1)
    then show ?thesis using one Cons.IH [of st1] by simp
  qed
qed

lemma write_repro_results_other_sheet:
  assumes "s \<noteq> ''REPRO controle 1''" and "s \<noteq> ''REPRO controle 2''"
  shows "get_sheet (book (es_world (final (write_repro_results cfg pro st d)))) s =
         get_sheet (book (es_world st)) s"
proof (induction d arbitrary: st)
  case Nil
  show ?case by simp
next
  case (Cons entry d)
  have one: "get_sheet (book (es_world (final (write_test cfg pro st entry)))) s =
             get_sheet (book (es_world st)) s"
    using emit_loop_other_sheet [OF assms, of cfg pro "fst entry"
            "st\<lparr>row_control_1 := REPRO_FIRST_DATA_ROW, row_control_2 := REPRO_FIRST_DATA_ROW\<rparr>"
            "sort_key fst (snd entry)"]
    by (simp add: write_test_def)
  show ?case
  proof (cases "write_test cfg pro st entry")
    case (Inl x)
    then show ?thesis using one by simp
  next
    case (Inr st1)
    then show ?thesis using one Cons.IH [of st1] by simp
  qed
qed

text \<open>
  Claim C5, as the code has it. For a measurement whose sheet resolves to one of the two
  control sheets, with the sheet in the workbook and the mnemonic in its header row, the
  loop calls \<open>update_repro_row\<close> at the counter of that sheet and then advances that
  counter by one and leaves the other counter, whether the cell was free or not; when the
  cell holds a value the workbook stays as it was. When the mnemonic is not in the header
  row the measurement is skipped with a warning and no counter moves; for a sheet other
  than the two control sheets nothing is written and no counter moves. A sheet other than
  the two control sheets is the same after the run as before it.
\<close>

theorem row_counter_advances_with_every_call:
  "(determine_repro_sheet cfg pro qc an = Inr d \<and>
    apply_hiv_sheet_override t qc d = ''REPRO controle 1'' \<and>
    get_sheet (book (es_world st)) ''REPRO controle 1'' = Some ws \<and>
    get_repro_test_column ws t = Inr (Some c) \<and> 1 \<le> row_control_1 st \<longrightarrow>
      row_control_1 (final (emit_measurement cfg pro t st (ts, v, qc, an))) =
        row_control_1 st + 1 \<and>
      row_control_2 (final (emit_measurement cfg pro t st (ts, v, qc, an))) = row_control_2 st \<and>
      (\<not> is_empty (cells ws (row_control_1 st, c)) \<longrightarrow>
         es_world (final (emit_measurement cfg pro t st (ts, v, qc, an))) = es_world st)) \<and>
   (determine_repro_sheet cfg pro qc an = Inr d \<and>
    apply_hiv_sheet_override t qc d = ''REPRO controle 2'' \<and>
    get_sheet (book (es_world st)) ''REPRO controle 2'' = Some ws \<and>
    get_repro_test_column ws t = Inr (Some c) \<and> 1 \<le> row_control_2 st \<longrightarrow>
      row_control_2 (final (emit_measurement cfg pro t st (ts, v, qc, an))) =
        row_control_2 st + 1 \<and>
      row_control_1 (final (emit_measurement cfg pro t st (ts, v, qc, an))) = row_control_1 st \<and>
      (\<not> is_empty (cells ws (row_control_2 st, c)) \<longrightarrow>
         es_world (final (emit_measurement cfg pro t st (ts, v, qc, an))) = es_world st)) \<and>
   (determine_repro_sheet cfg pro qc an = Inr d \<and>
    get_sheet (book (es_world st)) (apply_hiv_sheet_override t qc d) = Some ws \<and>
    get_repro_test_column ws t = Inr None \<longrightarrow>
      emit_measurement cfg pro t st (ts, v, qc, an) =
        Inr (warn st (Mnemonic_not_in_sheet t (apply_hiv_sheet_override t qc d)))) \<and>
   (determine_repro_sheet cfg pro qc an = Inr d \<and>
    apply_hiv_sheet_override t qc d \<noteq> ''REPRO controle 1'' \<and>
    apply_hiv_sheet_override t qc d \<noteq> ''REPRO controle 2'' \<and>
    get_sheet (book (es_world st)) (apply_hiv_sheet_override t qc d) = Some ws \<and>
    get_repro_test_column ws t = Inr (Some c) \<longrightarrow>
      emit_measurement cfg pro t st (ts, v, qc, an) = Inr st) \<and>
   (s \<noteq> ''REPRO controle 1'' \<and> s \<noteq> ''REPRO controle 2'' \<longrightarrow>
      get_sheet (book (es_world (final (write_repro_results cfg pro st batch)))) s =
        get_sheet (book (es_world st)) s)"
proof (intro conjI impI)
  assume a: "determine_repro_sheet cfg pro qc an = Inr d \<and>
    apply_hiv_sheet_override t qc d = ''REPRO controle 1'' \<and>
    get_sheet (book (es_world st)) ''REPRO controle 1'' = Some ws \<and>
    get_repro_test_column ws t = Inr (Some c) \<and> 1 \<le> row_control_1 st"
  then have c: "1 \<le> c"
    using get_repro_test_column_from_ge [of ws t 1 "nat (max_column ws)" c]
    by (simp add: get_repro_test_column_def)
  have u: "update_repro_row (es_world st) ''REPRO controle 1'' (row_control_1 st) (Some c)
             (ts, v, qc, an) =
           (if is_empty (cells ws (row_control_1 st, c)) then
              Inr ((es_world st)\<lparr>book := put_sheet (book (es_world st))
                     (ws\<lparr>cells := (cells ws)((row_control_1 st, c) := value_to_write v),
                         fills := (fills ws)((row_control_1 st, c) := True)\<rparr>)\<rparr>)
            else Inr (es_world st))"
    using a c update_repro_row_on_sheet
            [of "es_world st" "''REPRO controle 1''" ws "row_control_1 st" c "(ts, v, qc, an)"]
    by simp
  show "row_control_1 (final (emit_measurement cfg pro t st (ts, v, qc, an))) =
        row_control_1 st + 1"
    using a u by (simp add: emit_measurement_def Let_def)
  show "row_control_2 (final (emit_measurement cfg pro t st (ts, v, qc, an))) = row_control_2 st"
    using a u by (simp add: emit_measurement_def Let_def)
  assume "\<not> is_empty (cells ws (row_control_1 st, c))"
  then show "es_world (final (emit_measurement cfg pro t st (ts, v, qc, an))) = es_world st"
    using a u by (simp add: emit_measurement_def Let_def)
next
  assume a: "determine_repro_sheet cfg pro qc an = Inr d \<and>
    apply_hiv_sheet_override t qc d = ''REPRO controle 2'' \<and>
    get_sheet (book (es_world st)) ''REPRO controle 2'' = Some ws \<and>
    get_repro_test_column ws t = Inr (Some c) \<and> 1 \<le> row_control_2 st"
  then have c: "1 \<le> c"
    using get_repro_test_column_from_ge [of ws t 1 "nat (max_column ws)" c]
    by (simp add: get_repro_test_column_def)
  have u: "update_repro_row (es_world st) ''REPRO controle 2'' (row_control_2 st) (Some c)
             (ts, v, qc, an) =
           (if is_empty (cells ws (row_control_2 st, c)) then
              Inr ((es_world st)\<lparr>book := put_sheet (book (es_world st))
                     (ws\<lparr>cells := (cells ws)((row_control_2 st, c) := value_to_write v),
                         fills := (fills ws)((row_control_2 st, c) := True)\<rparr>)\<rparr>)
            else Inr (es_world st))"
    using a c update_repro_row_on_sheet
            [of "es_world st" "''REPRO controle 2''" ws "row_control_2 st" c "(ts, v, qc, an)"]
    by simp
  show "row_control_2 (final (emit_measurement cfg pro t st (ts, v, qc, an))) =
        row_control_2 st + 1"
    using a u by (simp add: emit_measurement_def Let_def)
  show "row_control_1 (final (emit_measurement cfg pro t st (ts, v, qc, an))) = row_control_1 st"
    using a u by (simp add: emit_measurement_def Let_def)
  assume "\<not> is_empty (cells ws (row_control_2 st, c))"
  then show "es_world (final (emit_measurement cfg pro t st (ts, v, qc, an))) = es_world st"
    using a u by (simp add: emit_measurement_def Let_def)
next
  assume "determine_repro_sheet cfg pro qc an = Inr d \<and>
    get_sheet (book (es_world st)) (apply_hiv_sheet_override t qc d) = Some ws \<and>
    get_repro_test_column ws t = Inr None"
  then show "emit_measurement cfg pro t st (ts, v, qc, an) =
        Inr (warn st (Mnemonic_not_in_sheet t (apply_hiv_sheet_override t qc d)))"
    by (simp add: emit_measurement_def Let_def)
next
  assume "determine_repro_sheet cfg pro qc an = Inr d \<and>
    apply_hiv_sheet_override t qc d \<noteq> ''REPRO controle 1'' \<and>
    apply_hiv_sheet_override t qc d \<noteq> ''REPRO controle 2'' \<and>
    get_sheet (book (es_world st)) (apply_hiv_sheet_override t qc d) = Some ws \<and>
    get_repro_test_column ws t = Inr (Some c)"
  then show "emit_measurement cfg pro t st (ts, v, qc, an) = Inr st"
    by (simp add: emit_measurement_def Let_def)
next
  assume "s \<noteq> ''REPRO controle 1'' \<and> s \<noteq> ''REPRO controle 2''"
  then show "get_sheet (book (es_world (final (write_repro_results cfg pro st batch)))) s =
        get_sheet (book (es_world st)) s"
    by (intro write_repro_results_other_sheet) auto
qed

theorem row_counter_advances_with_every_call_witness:
  "row_control_1 (final (emit_measurement example_config True ''k_na''
      (start (repro_template ''k_na''))
      (1, PStr ''1.5'', ''VLK_PC1'', ''VLK_PRO-3_C503''))) = 4 \<and>
   row_control_2 (final (emit_measurement example_config True ''k_na''
      (start (repro_template ''k_na''))
      (1, PStr ''1.5'', ''VLK_PC1'', ''VLK_PRO-3_C503''))) = 3 \<and>
   emit_measurement example_config True ''k_na'' (start (repro_template ''k_na''))
      (1, PStr ''1.5'', ''VLK_Bil_1'', ''VLK_PRO-3_C503'') =
     Inr (start (repro_template ''k_na'')) \<and>
   emit_measurement example_config True ''m_tsh'' (start (repro_template ''k_na''))
      (1, PStr ''1.5'', ''VLK_PC1'', ''VLK_PRO-3_C503'') =
     Inr (warn (start (repro_template ''k_na''))
            (Mnemonic_not_in_sheet ''m_tsh'' ''REPRO controle 1'')) \<and>
   get_sheet (book (es_world (final (write_repro_results example_config True
        (start (repro_template ''k_na''))
        [(''k_na'', [(1, PStr ''1.5'', ''VLK_Bil_1'', ''VLK_PRO-3_C503'')])]))))
     ''REPRO controle 3'' = Some (control_sheet ''REPRO controle 3'' ''k_na'')"
  using row_counter_advances_with_every_call
          [where cfg = example_config and pro = True and qc = "''VLK_PC1''"
             and an = "''VLK_PRO-3_C503''" and d = "''REPRO controle 1''" and t = "''k_na''"
             and st = "start (repro_template ''k_na'')"
             and ws = "control_sheet ''REPRO controle 1'' ''k_na''" and c = 1 and ts = 1
             and v = "PStr ''1.5''" and s = "''REPRO controle 3''"
             and batch = "[(''k_na'', [(1, PStr ''1.5'', ''VLK_Bil_1'', ''VLK_PRO-3_C503'')])]"]
        row_counter_advances_with_every_call
          [where cfg = example_config and pro = True and qc = "''VLK_Bil_1''"
             and an = "''VLK_PRO-3_C503''" and d = "''REPRO controle 3''" and t = "''k_na''"
             and st = "start (repro_template ''k_na'')"
             and ws = "control_sheet ''REPRO controle 3'' ''k_na''" and c = 1 and ts = 1
             and v = "PStr ''1.5''" and s = "''REPRO controle 3''" and batch = "[]"]
        row_counter_advances_with_every_call
          [where cfg = example_config and pro = True and qc = "''VLK_PC1''"
             and an = "''VLK_PRO-3_C503''" and d = "''REPRO controle 1''" and t = "''m_tsh''"
             and st = "start (repro_template ''k_na'')"
             and ws = "control_sheet ''REPRO controle 1'' ''k_na''" and c = 1 and ts = 1
             and v = "PStr ''1.5''" and s = "''REPRO controle 3''" and batch = "[]"]
  by (simp add: determine_repro_sheet_def example_config_def
      apply_hiv_sheet_override_def hiv_mappings_def start_def repro_template_def
      get_sheet_def control_sheet_def get_repro_test_column_def REPRO_HEADER_ROW_def
      REPRO_FIRST_DATA_ROW_def lower_def lower_char_def is_empty_def no_cells_def)

text \<open>
  The claim as the specification states it, that a write skipped because the cell is
  occupied does not advance the counter, fails: on a template whose cell in row 3 of the
  first control sheet holds a value, the measurement is not stored, the cell keeps its
  value, and the counter of the sheet goes from 3 to 4.
\<close>

theorem occupied_cell_advances_row_counter:
  "row_control_1 (start (occupied_template ''k_na'')) = 3 \<and>
   cell_value (occupied_template ''k_na'') ''REPRO controle 1'' 3 1 = Some (PStr ''4,2'') \<and>
   row_control_1 (final (emit_measurement example_config True ''k_na''
      (start (occupied_template ''k_na''))
      (1, PStr ''1.5'', ''VLK_PC1'', ''VLK_PRO-3_C503''))) = 4 \<and>
   cell_value (es_world (final (emit_measurement example_config True ''k_na''
      (start (occupied_template ''k_na''))
      (1, PStr ''1.5'', ''VLK_PC1'', ''VLK_PRO-3_C503'')))) ''REPRO controle 1'' 3 1 =
     Some (PStr ''4,2'')"
  by (simp add: emit_measurement_def determine_repro_sheet_def example_config_def
      apply_hiv_sheet_override_def hiv_mappings_def start_def occupied_template_def
      get_sheet_def control_sheet_def get_repro_test_column_def REPRO_HEADER_ROW_def
      REPRO_FIRST_DATA_ROW_def lower_def lower_char_def update_repro_row_def sheetnames_def
      update_excel_cell_def is_empty_def no_cells_def cell_free_def Let_def cell_value_def)

end
